(* ===== verification/PyPrelude.thy ===== *)
theory PyPrelude
  imports Complex_Main
begin

text \<open>
  Shared vocabulary of the development: the Python and NumPy primitives the script
  relies on (exceptions, \<open>range\<close>, \<open>str\<close> of an integer, \<open>str.join\<close>,
  \<open>os.path.join\<close>, \<open>np.mean\<close> with NaN), modelled once and used by every component,
  with the generic list lemmas their proofs share.
\<close>

named_theorems py_simps "evaluation rules of the modelled Python primitives"

subsection \<open>Exceptions\<close>

text \<open>
  The exceptions the script can raise. A raise is a value \<open>Inl e\<close> of a result type
  \<open>py_error + 'a\<close>; a normal return is \<open>Inr v\<close>.
\<close>

datatype py_error =
    TypeError string
  | IndexError string
  | ValueError string
  | NameError string
  | KeyError string
  | AttributeError string
  | QgsProcessingException string

type_synonym 'a py_result = "py_error + 'a"

subsection \<open>Floats with NaN\<close>

text \<open>
  A float cell of a pandas column or a NumPy result: \<open>None\<close> is NaN, \<open>Some x\<close> a
  number. Finite values are kept as reals: rounding is not modelled.
\<close>

type_synonym float64 = "real option"

abbreviation NaN :: float64 where
  "NaN \<equiv> None"

fun drop_nan :: "float64 list \<Rightarrow> real list" where
  "drop_nan [] = []"
| "drop_nan (None # xs) = drop_nan xs"
| "drop_nan (Some x # xs) = x # drop_nan xs"

text \<open>
  \<open>np.mean\<close> applied to a pandas Series dispatches to \<open>Series.mean\<close>, which skips
  NaN and returns NaN (with a warning, not an exception) when nothing is left.
\<close>

definition np_mean :: "float64 list \<Rightarrow> float64" where
  "np_mean xs = (let ys = drop_nan xs in
                 if ys = [] then NaN else Some (sum_list ys / real (length ys)))"

subsection \<open>\<open>range(start, stop, step)\<close>\<close>

text \<open>
  Python's \<open>range\<close> counts up for a positive step and down for a negative one; a zero
  step raises \<open>ValueError\<close>.
\<close>

function range_from :: "int \<Rightarrow> int \<Rightarrow> int \<Rightarrow> int list" where
  "range_from start stop step =
     (if 0 < step \<and> start < stop then start # range_from (start + step) stop step
      else if step < 0 \<and> stop < start then start # range_from (start + step) stop step
      else [])"
  by pat_completeness auto
termination
  by (relation "measure (\<lambda>(a, b, s). if 0 < s then nat (b - a) else nat (a - b))") auto

declare range_from.simps [simp del]

definition py_range :: "int \<Rightarrow> int \<Rightarrow> int \<Rightarrow> int list py_result" where
  "py_range start stop step =
     (if step = 0 then Inl (ValueError ''range() arg 3 must not be zero'')
      else Inr (range_from start stop step))"

subsection \<open>\<open>str\<close> of an integer\<close>

definition digit_char :: "nat \<Rightarrow> char" where
  "digit_char d = char_of (48 + d)"

definition py_isdigit :: "char \<Rightarrow> bool" where
  "py_isdigit c \<longleftrightarrow> (48::nat) \<le> of_char c \<and> of_char c < (58::nat)"

definition digit_val :: "char \<Rightarrow> nat" where
  "digit_val c = of_char c - 48"

fun nat_digits :: "nat \<Rightarrow> string" where
  "nat_digits n = (if n < 10 then [digit_char n] else nat_digits (n div 10) @ [digit_char (n mod 10)])"

declare nat_digits.simps [simp del]

text \<open>\<open>str(i)\<close> for a Python \<open>int\<close>: decimal digits, a minus sign when negative.\<close>

definition py_str_int :: "int \<Rightarrow> string" where
  "py_str_int i = (if i < 0 then CHR ''-'' # nat_digits (nat (- i)) else nat_digits (nat i))"

text \<open>\<open>sep.join(xs)\<close>.\<close>

fun py_join :: "string \<Rightarrow> string list \<Rightarrow> string" where
  "py_join sep [] = []"
| "py_join sep [x] = x"
| "py_join sep (x # y # zs) = x @ sep @ py_join sep (y # zs)"


text \<open>\<open>xs[i]\<close> on a list: negative indices count from the end; out of range raises.\<close>

definition py_index :: "'a list \<Rightarrow> int \<Rightarrow> 'a py_result" where
  "py_index xs i =
     (let k = if 0 \<le> i then i else i + int (length xs) in
      if k < 0 \<or> int (length xs) \<le> k then Inl (IndexError ''list index out of range'')
      else Inr (xs ! nat k))"

text \<open>\<open>iter(v)\<close> for a value \<open>v\<close> of type \<open>int\<close>: an \<open>int\<close> is not iterable.\<close>

definition py_iter_int :: "int \<Rightarrow> int list py_result" where
  "py_iter_int v = Inl (TypeError ''int object is not iterable'')"

text \<open>
  \<open>os.path.join(a, b)\<close> on POSIX: \<open>b\<close> when it is absolute or \<open>a\<close> is empty,
  otherwise \<open>a\<close> and \<open>b\<close> with one separator between them.
\<close>

definition os_path_join :: "string \<Rightarrow> string \<Rightarrow> string" where
  "os_path_join a b =
     (if take 1 b = ''/'' \<or> a = [] then b
      else if last a = CHR ''/'' then a @ b
      else a @ ''/'' @ b)"

subsection \<open>Lemmas on the primitives\<close>

lemma drop_nan_map_Some [simp]: "drop_nan (map Some xs) = xs"
  by (induction xs) auto

lemma np_mean_Some [py_simps]:
  "xs \<noteq> [] \<Longrightarrow> np_mean (map Some xs) = Some (sum_list xs / real (length xs))"
  by (simp add: np_mean_def)

lemma np_mean_Nil [py_simps]: "np_mean [] = NaN"
  by (simp add: np_mean_def)

lemma sum_list_le_length_max:
  fixes xs :: "real list"
  assumes "\<forall>x \<in> set xs. x \<le> b"
  shows "sum_list xs \<le> real (length xs) * b"
  using assms by (induction xs) (auto simp: algebra_simps)

lemma sum_list_ge_length_min:
  fixes xs :: "real list"
  assumes "\<forall>x \<in> set xs. a \<le> x"
  shows "real (length xs) * a \<le> sum_list xs"
  using assms by (induction xs) (auto simp: algebra_simps)

lemma range_from_arith:
  assumes "0 < s"
  shows "range_from a (a + s * int n) s = map (\<lambda>k. a + s * int k) [0..<n]"
  using assms
proof (induction n arbitrary: a)
  case 0
  then show ?case by (simp add: range_from.simps)
next
  case (Suc n)
  have pos: "0 < s * int (Suc n)"
    using Suc.prems by simp
  have "range_from a (a + s * int (Suc n)) s = a # range_from (a + s) ((a + s) + s * int n) s"
    using Suc.prems pos by (subst range_from.simps) (simp add: algebra_simps)
  also have "\<dots> = a # map (\<lambda>k. a + s + s * int k) [0..<n]"
    using Suc by simp
  also have "\<dots> = map (\<lambda>k. a + s * int k) [0..<Suc n]"
    by (simp add: upt_conv_Cons map_Suc_upt [symmetric] algebra_simps del: upt_Suc)
  finally show ?case .
qed

lemma of_char_digit_char [simp]: "d < 10 \<Longrightarrow> of_char (digit_char d) = 48 + d"
  by (simp add: digit_char_def)

lemma digit_char_isdigit [simp]: "d < 10 \<Longrightarrow> py_isdigit (digit_char d)"
  by (simp add: py_isdigit_def)

lemma digit_val_digit_char [simp]: "d < 10 \<Longrightarrow> digit_val (digit_char d) = d"
  by (simp add: digit_val_def)

lemma nat_digits_isdigit: "c \<in> set (nat_digits n) \<Longrightarrow> py_isdigit c"
proof (induction n rule: nat_digits.induct)
  case (1 n)
  then show ?case by (subst (asm) nat_digits.simps) (auto split: if_splits)
qed

lemma nat_digits_not_Nil [simp]: "nat_digits n \<noteq> []"
  by (subst nat_digits.simps) simp


lemma drop_nan_set: "x \<in> set (drop_nan xs) \<longleftrightarrow> Some x \<in> set xs"
  by (induction xs rule: drop_nan.induct) auto

lemma np_mean_nonneg:
  assumes "np_mean xs = Some v" and "\<And>x. Some x \<in> set xs \<Longrightarrow> 0 \<le> x"
  shows "0 \<le> v"
proof -
  have v: "v = sum_list (drop_nan xs) / real (length (drop_nan xs))"
    using assms(1) by (auto simp: np_mean_def Let_def split: if_splits)
  have "0 \<le> sum_list (drop_nan xs)"
    using assms(2) by (intro sum_list_nonneg) (simp add: drop_nan_set)
  then show ?thesis by (simp add: v)
qed

lemma np_mean_bounds:
  assumes "np_mean xs = Some v"
    and "\<And>x. Some x \<in> set xs \<Longrightarrow> a \<le> x \<and> x \<le> b"
  shows "a \<le> v \<and> v \<le> b"
proof -
  let ?ys = "drop_nan xs"
  have ne: "?ys \<noteq> []" and v: "v = sum_list ?ys / real (length ?ys)"
    using assms(1) by (auto simp: np_mean_def Let_def split: if_splits)
  have lo: "\<forall>y \<in> set ?ys. a \<le> y" and hi: "\<forall>y \<in> set ?ys. y \<le> b"
    using assms(2) by (auto simp: drop_nan_set)
  have pos: "0 < real (length ?ys)" using ne by simp
  have "real (length ?ys) * a \<le> sum_list ?ys"
    using lo by (rule sum_list_ge_length_min)
  then have "a \<le> v" using pos v by (simp add: pos_le_divide_eq mult.commute)
  moreover have "sum_list ?ys \<le> real (length ?ys) * b"
    using hi by (rule sum_list_le_length_max)
  then have "v \<le> b" using pos v by (simp add: pos_divide_le_eq mult.commute)
  ultimately show ?thesis ..
qed

end
