(* ===== verification/GridCatalog.thy ===== *)
theory GridCatalog
  imports PyPrelude
begin

text \<open>
  The grid-point catalog and the result table of the local-isolation script
  (second half of \<open>src/interyear_climatic_volatility_pyqgis.py\<close>): the point features of
  the land-surface grid layer, the QGIS project registry of map layers, the pandas
  data frame \<open>df\<close> read from the layer (columns \<open>id\<close>, \<open>isocode\<close>), the
  \<open>avlcpcost\<close> column initialised to NaN, and the row update
  \<open>df_cntry.loc[df_cntry['id'] == point_id, lcpvar_name] = v\<close>.
\<close>

subsection \<open>Features and layers\<close>

text \<open>
  A feature of the grid-centroid layer \<open>grid1dg_ctrd_cntry\<close>: its \<open>id\<close> attribute,
  its \<open>isocode\<close> attribute and its centroid (longitude, latitude), which only the
  least-cost-path solver looks at.
\<close>

record feature =
  fid :: int
  isocode :: string
  ctrd :: "real \<times> real"

text \<open>
  A feature of the output layer of the \<open>Cost distance analysis:Least Cost Path\<close>
  algorithm: the start and end point of the path and its \<open>total cost\<close> attribute.
\<close>

record path_feature =
  start_id :: int
  end_id :: int
  total_cost :: float64

text \<open>
  The call of the \<open>Least Cost Path\<close> algorithm (lines 210--217): from the start-point
  layer and the end-point layer to the features of the output layer, or the exception
  it raises.
\<close>

type_synonym 'e lcp_solver = "feature list \<Rightarrow> feature list \<Rightarrow> 'e + path_feature list"

text \<open>A map layer: a vector layer of grid points, a vector layer of paths, or a raster
  layer given by the file it was created from.\<close>

datatype layer =
    PointLayer "feature list"
  | PathLayer "path_feature list"
  | RasterLayer string

text \<open>\<open>QgsProject.instance()\<close>: the map layers registered so far, with their names.\<close>

type_synonym qgs_project = "(string \<times> layer) list"

definition mapLayersByName :: "qgs_project \<Rightarrow> string \<Rightarrow> layer list" where
  "mapLayersByName prj name = map snd (filter (\<lambda>(n, _). n = name) prj)"

definition addMapLayer :: "string \<Rightarrow> layer \<Rightarrow> qgs_project \<Rightarrow> qgs_project" where
  "addMapLayer name l prj = prj @ [(name, l)]"

subsection \<open>Loading the grid into a data frame\<close>

text \<open>
  \<open>lyr = QgsProject.instance().mapLayersByName('grid1dg_ctrd_cntry')[0]\<close> raises
  \<open>IndexError\<close> when no such layer is loaded; the records \<open>[f[col] for col in cols]\<close>
  of a layer without the \<open>id\<close> attribute (a path layer) raise \<open>KeyError\<close>, and a
  raster layer has no \<open>getFeatures\<close>.
\<close>

definition load_grid :: "qgs_project \<Rightarrow> (int \<times> string) list py_result" where
  "load_grid prj =
     (case mapLayersByName prj ''grid1dg_ctrd_cntry'' of
        [] \<Rightarrow> Inl (IndexError ''list index out of range'')
      | PointLayer fs # _ \<Rightarrow> Inr (map (\<lambda>f. (fid f, isocode f)) fs)
      | PathLayer _ # _ \<Rightarrow> Inl (KeyError ''id'')
      | RasterLayer _ # _ \<Rightarrow> Inl (AttributeError ''QgsRasterLayer has no attribute getFeatures''))"

text \<open>A row of \<open>df_cntry\<close> once the column \<open>avlcpcost\<close> exists.\<close>

record row =
  row_id :: int
  row_isocode :: string
  avlcpcost :: float64

text \<open>\<open>df_cntry = df\<close>; \<open>df_cntry[lcpvar_name] = np.NaN\<close>.\<close>

definition init_lcp_column :: "(int \<times> string) list \<Rightarrow> row list" where
  "init_lcp_column df = map (\<lambda>(i, c). \<lparr>row_id = i, row_isocode = c, avlcpcost = NaN\<rparr>) df"

text \<open>\<open>df_cntry.loc[df_cntry['id'] == point_id, lcpvar_name] = v\<close>: every row whose id
  equals \<open>point_id\<close> is written, the others are kept.\<close>

definition df_loc_set :: "row list \<Rightarrow> int \<Rightarrow> float64 \<Rightarrow> row list" where
  "df_loc_set df point_id v = map (\<lambda>r. if row_id r = point_id then r\<lparr>avlcpcost := v\<rparr> else r) df"

text \<open>The shape of the table: the id and isocode columns, in row order.\<close>

definition df_keys :: "row list \<Rightarrow> (int \<times> string) list" where
  "df_keys df = map (\<lambda>r. (row_id r, row_isocode r)) df"

subsection \<open>Lemmas\<close>

lemma df_keys_init [simp]: "df_keys (init_lcp_column df) = df"
  by (induction df) (auto simp: df_keys_def init_lcp_column_def)

lemma df_keys_loc_set [simp]: "df_keys (df_loc_set df p v) = df_keys df"
  by (induction df) (auto simp: df_keys_def df_loc_set_def)

lemma length_df_loc_set [simp]: "length (df_loc_set df p v) = length df"
  by (simp add: df_loc_set_def)

lemma df_loc_set_twice [simp]: "df_loc_set (df_loc_set df p v) p v = df_loc_set df p v"
  by (induction df) (auto simp: df_loc_set_def)

lemma df_loc_set_commute:
  "p \<noteq> q \<Longrightarrow> df_loc_set (df_loc_set df p v) q w = df_loc_set (df_loc_set df q w) p v"
  by (induction df) (auto simp: df_loc_set_def)

lemma load_grid_single [simp]:
  "load_grid [(''grid1dg_ctrd_cntry'', PointLayer fs)] = Inr (map (\<lambda>f. (fid f, isocode f)) fs)"
  by (simp add: load_grid_def mapLayersByName_def)

lemma mapLayersByName_add_other [simp]:
  "name \<noteq> n \<Longrightarrow> mapLayersByName (addMapLayer n l prj) name = mapLayersByName prj name"
  by (simp add: mapLayersByName_def addMapLayer_def)

end
