(* ===== verification/QgsLex.thy ===== *)
theory QgsLex
  imports PyPrelude
begin

text \<open>
  Integer literals of the QGIS expression language, as the script writes them with
  \<open>str\<close>: an optional minus sign and decimal digits. The lexer functions here and
  the parser of \<open>QgsExpr\<close> model QGIS, which is not part of the repository; the
  lemmas show that reading back what \<open>str\<close> printed gives the integer again.
\<close>

type_synonym 'a parser = "string \<Rightarrow> ('a \<times> string) option"

subsection \<open>Integer literals\<close>

definition digits_value :: "string \<Rightarrow> nat" where
  "digits_value ds = foldl (\<lambda>n c. 10 * n + digit_val c) 0 ds"

definition parse_nat :: "nat parser" where
  "parse_nat s =
     (let ds = takeWhile py_isdigit s in
      if ds = [] then None else Some (digits_value ds, dropWhile py_isdigit s))"

definition parse_int :: "int parser" where
  "parse_int s =
     (if take 1 s = ''-'' then map_option (\<lambda>(n, r). (- int n, r)) (parse_nat (drop 1 s))
      else map_option (\<lambda>(n, r). (int n, r)) (parse_nat s))"

text \<open>What may follow a literal without being read as part of it.\<close>

definition literal_end :: "string \<Rightarrow> bool" where
  "literal_end rest \<longleftrightarrow> rest = [] \<or> \<not> py_isdigit (hd rest)"

subsection \<open>Lemmas\<close>

lemma parse_nat_shorter: "parse_nat s = Some (n, r) \<Longrightarrow> length r < length s"
proof (cases s)
  case (Cons c cs)
  assume p: "parse_nat s = Some (n, r)"
  then have "py_isdigit c" and r: "r = dropWhile py_isdigit cs"
    using Cons by (auto simp: parse_nat_def Let_def split: if_splits)
  moreover have "length (dropWhile py_isdigit cs) \<le> length cs"
    by (rule length_dropWhile_le)
  ultimately show ?thesis using Cons by simp
qed (simp add: parse_nat_def)

lemma parse_int_shorter: "parse_int s = Some (i, r) \<Longrightarrow> length r < length s"
  by (auto simp: parse_int_def dest!: parse_nat_shorter split: if_splits)


subsection \<open>Printing and parsing are inverse\<close>

lemma digits_value_snoc [simp]: "digits_value (ds @ [c]) = 10 * digits_value ds + digit_val c"
  by (simp add: digits_value_def)

lemma digits_value_nat_digits [simp]: "digits_value (nat_digits n) = n"
proof (induction n rule: nat_digits.induct)
  case (1 n)
  show ?case
  proof (cases "n < 10")
    case True
    then show ?thesis by (subst nat_digits.simps) (simp add: digits_value_def)
  next
    case False
    with "1.IH" show ?thesis by (subst nat_digits.simps) simp
  qed
qed

lemma literal_end_Cons [simp]: "literal_end (c # cs) \<longleftrightarrow> \<not> py_isdigit c"
  by (simp add: literal_end_def)

lemma literal_end_Nil [simp]: "literal_end []"
  by (simp add: literal_end_def)

lemma parse_nat_nat_digits:
  assumes "literal_end rest"
  shows "parse_nat (nat_digits n @ rest) = Some (n, rest)"
proof -
  from assms have "takeWhile py_isdigit rest = []" and "dropWhile py_isdigit rest = rest"
    by (auto simp: literal_end_def takeWhile_eq_Nil_iff dropWhile_eq_self_iff)
  then show ?thesis by (simp add: parse_nat_def nat_digits_isdigit)
qed

lemma nat_digits_hd: "\<exists>c cs. nat_digits n = c # cs \<and> py_isdigit c"
  using nat_digits_not_Nil nat_digits_isdigit by (metis list.set_intros(1) neq_Nil_conv)

lemma minus_not_digit [simp]: "\<not> py_isdigit CHR ''-''"
  by (simp add: py_isdigit_def)

lemma comma_not_digit [simp]: "\<not> py_isdigit CHR '',''"
  by (simp add: py_isdigit_def)

lemma paren_not_digit [simp]: "\<not> py_isdigit CHR '')''"
  by (simp add: py_isdigit_def)

lemma parse_int_py_str_int:
  assumes "literal_end rest"
  shows "parse_int (py_str_int i @ rest) = Some (i, rest)"
proof (cases "i < 0")
  case True
  then show ?thesis
    using parse_nat_nat_digits [OF assms, of "nat (- i)"]
    by (simp add: parse_int_def py_str_int_def)
next
  case False
  obtain c cs where c: "nat_digits (nat i) = c # cs" and "py_isdigit c"
    using nat_digits_hd by blast
  then have "c \<noteq> CHR ''-''" by auto
  then have "take 1 (py_str_int i @ rest) \<noteq> ''-''"
    using False c by (simp add: py_str_int_def)
  then show ?thesis
    using False parse_nat_nat_digits [OF assms, of "nat i"]
    by (simp add: parse_int_def py_str_int_def)
qed

text \<open>Reading back the string Python's \<open>str\<close> prints for an integer gives that
  integer and consumes the whole string.\<close>

theorem str_int_roundtrip: "parse_int (py_str_int i) = Some (i, [])"
  using parse_int_py_str_int [of "[]" i] by simp

end
