(* ===== verification/QgsExpr.thy ===== *)
theory QgsExpr
  imports GridCatalog QgsLex
begin

text \<open>
  The part of QGIS the script relies on for extracting points: the expression language
  restricted to the form the script generates, \<open>id IN (i1, i2, ...)\<close> with decimal,
  possibly negative, integer literals separated by \<open>", "\<close>, and the algorithm
  \<open>native:extractbyexpression\<close>, which keeps the features of its input for which the
  expression holds, in input order, and raises \<open>QgsProcessingException\<close> for an
  expression that does not parse. QGIS is not part of the repository: this theory models
  it from its documented behaviour (the grammar of \<open>IN\<close> requires a non-empty list).
\<close>

subsection \<open>Literal lists and the \<open>IN\<close> expression\<close>

function parse_items :: "int list parser" where
  "parse_items s =
     (case parse_int s of
        None \<Rightarrow> None
      | Some (i, r) \<Rightarrow>
          if take 2 r = '', '' then
            (case parse_items (drop 2 r) of
               None \<Rightarrow> None
             | Some (is, r') \<Rightarrow> Some (i # is, r'))
          else Some ([i], r))"
  by pat_completeness auto
termination
  by (relation "measure length") (auto dest: parse_int_shorter)

declare parse_items.simps [simp del]

text \<open>The expression \<open>id IN (...)\<close> denotes the list of its literals.\<close>

definition parse_in_expr :: "string \<Rightarrow> int list option" where
  "parse_in_expr e =
     (if take 7 e = ''id IN ('' then
        (case parse_items (drop 7 e) of
           Some (ids, r) \<Rightarrow> if r = '')'' then Some ids else None
         | None \<Rightarrow> None)
      else None)"

text \<open>
  \<open>processing.run("native:extractbyexpression", {'INPUT': src, 'EXPRESSION': e,
  'OUTPUT': 'memory:'})['OUTPUT']\<close>.
\<close>

definition extractbyexpression :: "feature list \<Rightarrow> string \<Rightarrow> feature list py_result" where
  "extractbyexpression src e =
     (case parse_in_expr e of
        None \<Rightarrow> Inl (QgsProcessingException ''Evaluation error in expression'')
      | Some ids \<Rightarrow> Inr (filter (\<lambda>f. fid f \<in> set ids) src))"

subsection \<open>Printing and parsing are inverse\<close>

lemma parse_items_join:
  assumes "ids \<noteq> []" and "literal_end rest" and "take 2 rest \<noteq> '', ''"
  shows "parse_items (py_join '', '' (map py_str_int ids) @ rest) = Some (ids, rest)"
  using assms(1)
proof (induction ids rule: induct_list012)
  case (2 x)
  then show ?case
    using assms(3) parse_int_py_str_int [OF assms(2), of x]
    by (subst parse_items.simps) simp
next
  case (3 x y zs)
  have "parse_int (py_str_int x @ '', '' @ py_join '', '' (map py_str_int (y # zs)) @ rest)
        = Some (x, '', '' @ py_join '', '' (map py_str_int (y # zs)) @ rest)"
    by (rule parse_int_py_str_int) simp
  with "3.IH"(2) show ?case
    by (subst parse_items.simps) simp
qed simp

theorem parse_in_expr_roundtrip:
  "ids \<noteq> [] \<Longrightarrow> parse_in_expr (''id IN ('' @ py_join '', '' (map py_str_int ids) @ '')'') = Some ids"
  using parse_items_join [of ids "'')''"] by (simp add: parse_in_expr_def)

lemma parse_in_expr_empty: "parse_in_expr ''id IN ()'' = None"
  by (simp add: parse_in_expr_def parse_items.simps parse_int_def parse_nat_def)

lemma extractbyexpression_in_expr:
  assumes "ids \<noteq> []"
  shows "extractbyexpression src (''id IN ('' @ py_join '', '' (map py_str_int ids) @ '')'')
     = Inr (filter (\<lambda>f. fid f \<in> set ids) src)"
  unfolding extractbyexpression_def parse_in_expr_roundtrip [OF assms] by simp

end
