(* ===== verification/Neighbors.thy ===== *)
theory Neighbors
  imports QgsExpr
begin

text \<open>
  Neighbour resolution of the local-isolation script: the auxiliary functions
  \<open>bufpoint_id_generator\<close> and \<open>pointexpr_generator\<close>, which turn a point id into
  the \<open>id IN (...)\<close> expressions that select its end points and its start point, and
  the proof that extracting by these expressions selects exactly the catalog points whose
  id is the point's id plus one of the offsets (the "neighbour query" of the design).
\<close>

subsection \<open>The generators\<close>

text \<open>The dictionary \<open>{'buf_id_list': ..., 'expr_extrbyattr': ...}\<close>.\<close>

record bufpoint_query =
  buf_id_list :: "int list"
  expr_extrbyattr :: string

definition bufpoint_id_generator :: "int \<Rightarrow> int list \<Rightarrow> bufpoint_query" where
  "bufpoint_id_generator pid list_id_correction =
     (let id_list = map (\<lambda>key. pid + key) list_id_correction;
          expr = ''id IN ('' @ py_join '', '' (map py_str_int id_list) @ '')''
      in \<lparr>buf_id_list = id_list, expr_extrbyattr = expr\<rparr>)"

definition pointexpr_generator :: "int \<Rightarrow> string" where
  "pointexpr_generator pid = ''id IN ('' @ py_str_int pid @ '')''"

subsection \<open>What the expressions select\<close>

text \<open>
  The neighbour query of the design (section 4.2 of the specification): the catalog
  points whose id is \<open>point_id + off\<close> for an offset \<open>o\<close>, in catalog order; ids that
  are not in the catalog are silently absent.
\<close>

definition neighbor_points :: "feature list \<Rightarrow> int \<Rightarrow> int list \<Rightarrow> feature list" where
  "neighbor_points src point_id offsets =
     filter (\<lambda>f. fid f \<in> (\<lambda>off. point_id + off) ` set offsets) src"

definition start_points :: "feature list \<Rightarrow> int \<Rightarrow> feature list" where
  "start_points src point_id = filter (\<lambda>f. fid f = point_id) src"

lemma buf_id_list_set [simp]:
  "set (buf_id_list (bufpoint_id_generator p offsets)) = (\<lambda>off. p + off) ` set offsets"
  by (simp add: bufpoint_id_generator_def)

lemma buf_id_list_Nil_iff [simp]:
  "buf_id_list (bufpoint_id_generator p offsets) = [] \<longleftrightarrow> offsets = []"
  by (simp add: bufpoint_id_generator_def)

text \<open>
  C14. Round trip of the end-point expression: the string \<open>expr_extrbyattr\<close> that
  \<open>bufpoint_id_generator\<close> prints for a non-empty offset list parses back to exactly
  its \<open>buf_id_list\<close>, in order (negative ids included).
\<close>

theorem bufpoint_expr_roundtrip:
  "offsets \<noteq> [] \<Longrightarrow>
   parse_in_expr (expr_extrbyattr (bufpoint_id_generator p offsets))
     = Some (buf_id_list (bufpoint_id_generator p offsets))"
  unfolding bufpoint_id_generator_def Let_def
  by (simp only: bufpoint_query.simps) (rule parse_in_expr_roundtrip, simp)

lemma extract_start_point [simp]:
  "extractbyexpression src (pointexpr_generator p) = Inr (start_points src p)"
proof -
  have "extractbyexpression src (''id IN ('' @ py_join '', '' (map py_str_int [p]) @ '')'')
        = Inr (filter (\<lambda>f. fid f \<in> set [p]) src)"
    by (rule extractbyexpression_in_expr) simp
  then show ?thesis by (simp add: pointexpr_generator_def start_points_def)
qed

lemma extract_end_points:
  assumes "offsets \<noteq> []"
  shows "extractbyexpression src (expr_extrbyattr (bufpoint_id_generator p offsets))
           = Inr (neighbor_points src p offsets)"
proof -
  let ?ids = "map (\<lambda>key. p + key) offsets"
  have "?ids \<noteq> []" using assms by simp
  then have "extractbyexpression src (''id IN ('' @ py_join '', '' (map py_str_int ?ids) @ '')'')
             = Inr (filter (\<lambda>f. fid f \<in> set ?ids) src)"
    by (rule extractbyexpression_in_expr)
  then show ?thesis
    by (simp add: bufpoint_id_generator_def neighbor_points_def)
qed

lemma extract_end_points_empty_offsets:
  "extractbyexpression src (expr_extrbyattr (bufpoint_id_generator p []))
     = Inl (QgsProcessingException ''Evaluation error in expression'')"
  using parse_in_expr_empty
  by (simp add: bufpoint_id_generator_def extractbyexpression_def)

text \<open>
  C13. Neighbour resolution: extracting by the generated end-point expression selects
  exactly the catalog points whose id differs from the point's id by one of the offsets,
  in catalog order; ids missing from the catalog are dropped without error.
\<close>

theorem neighbor_resolution:
  assumes "offsets \<noteq> []"
  shows "extractbyexpression src (expr_extrbyattr (bufpoint_id_generator p offsets))
           = Inr (filter (\<lambda>f. fid f - p \<in> set offsets) src)"
proof -
  have "fid f \<in> (\<lambda>off. p + off) ` set offsets \<longleftrightarrow> fid f - p \<in> set offsets" for f :: feature
    by force
  then show ?thesis
    using extract_end_points [OF assms] by (simp add: neighbor_points_def)
qed

text \<open>
  C15. Round trip of the start-point expression: the string \<open>pointexpr_generator\<close>
  prints for a point id, \<open>id IN (<id>)\<close>, parses back to the one-element list of
  that id, for every integer id.
\<close>

theorem pointexpr_roundtrip: "parse_in_expr (pointexpr_generator p) = Some [p]"
proof -
  have "parse_in_expr (''id IN ('' @ py_join '', '' (map py_str_int [p]) @ '')'') = Some [p]"
    by (rule parse_in_expr_roundtrip) simp
  then show ?thesis by (simp add: pointexpr_generator_def)
qed

end
