(* ===== verification/CsvFormat.thy ===== *)
theory CsvFormat
  imports PyPrelude
begin

text \<open>
  The CSV dialect \<open>DataFrame.to_csv\<close> writes through Python's \<open>csv\<close> module with its
  defaults: fields separated by \<open>,\<close>, records ended by \<open>\n\<close> (\<open>os.linesep\<close> on
  POSIX), \<open>QUOTE_MINIMAL\<close> quoting with \<open>"\<close> (a field is quoted when it contains the
  separator, the quote character, \<open>\n\<close> or \<open>\r\<close>, and a quote inside a quoted field
  is doubled). Neither pandas nor the \<open>csv\<close> module is part of the repository: this
  theory models the writer from their documentation.
\<close>

subsection \<open>Writing\<close>

definition quote_char :: char where
  "quote_char = CHR 0x22"

definition nl_char :: char where
  "nl_char = CHR ''\<newline>''"

definition csv_needs_quote :: "string \<Rightarrow> bool" where
  "csv_needs_quote s \<longleftrightarrow> list_ex (\<lambda>c. c = CHR '','' \<or> c = quote_char \<or> c = nl_char \<or> c = CHR 0x0D) s"

definition csv_escape :: "string \<Rightarrow> string" where
  "csv_escape s = concat (map (\<lambda>c. if c = quote_char then [quote_char, quote_char] else [c]) s)"

definition csv_field :: "string \<Rightarrow> string" where
  "csv_field s = (if csv_needs_quote s then quote_char # csv_escape s @ [quote_char] else s)"

definition csv_record :: "string list \<Rightarrow> string" where
  "csv_record fs = py_join '','' (map csv_field fs) @ [nl_char]"

definition csv_text :: "string list list \<Rightarrow> string" where
  "csv_text rs = concat (map csv_record rs)"

end
