(* ===== verification/CsvExport.thy ===== *)
theory CsvExport
  imports GridCatalog CsvFormat
begin

text \<open>
  What \<open>df_cntry.to_csv(path)\<close> writes for the result table (line 234): pandas' default
  layout, a header record with an empty label for the unnamed index followed by the
  column names, then one record per row with the row's position in the
  \<open>RangeIndex\<close>, its \<open>id\<close>, its \<open>isocode\<close> and its \<open>avlcpcost\<close>, NaN written as
  the empty string (\<open>na_rep=''\<close>). The text of a finite float is Python's
  \<open>repr\<close>, which is not modelled: it is the parameter \<open>float_repr\<close>.
\<close>

definition csv_header :: "string list" where
  "csv_header = [[], ''id'', ''isocode'', ''avlcpcost'']"

definition csv_cell :: "(real \<Rightarrow> string) \<Rightarrow> float64 \<Rightarrow> string" where
  "csv_cell float_repr v = (case v of None \<Rightarrow> [] | Some x \<Rightarrow> float_repr x)"

definition df_rows :: "(real \<Rightarrow> string) \<Rightarrow> row list \<Rightarrow> string list list" where
  "df_rows float_repr df =
     csv_header #
     map (\<lambda>(i, r). [py_str_int (int i), py_str_int (row_id r), row_isocode r,
                   csv_cell float_repr (avlcpcost r)]) (enumerate 0 df)"

definition to_csv :: "(real \<Rightarrow> string) \<Rightarrow> row list \<Rightarrow> string" where
  "to_csv float_repr df = csv_text (df_rows float_repr df)"

end
