(* ===== verification/Isolation.thy ===== *)
theory Isolation
  imports Neighbors CsvExport
begin

text \<open>
  The per-point loop of the local-isolation script (\<open>for point_id in selec_point_ids\<close>):
  its state (the data frame \<open>df_cntry\<close>, the two error lists, the QGIS project's
  layers and the time spent in \<open>time.sleep\<close>), one loop iteration as a step function,
  the loop, and the whole script from loading the grid layer to the table that is
  exported. The least-cost-path algorithm is an injected capability \<open>solve\<close>: any
  function from the start layer and the end-point layer to an exception or to the path
  features it outputs. The theorems characterise the loop by a table computed point by
  point (a refinement of the loop by an order-independent specification) and derive
  from it the shape of the table, the error ledger, the throttle and the layer
  registry.
\<close>

subsection \<open>State and primitives\<close>

record 'e iso_state =
  df_cntry :: "row list"
  error_point_list :: "int list"
  error_excpt_list :: "'e list"
  project :: qgs_project
  slept :: nat

text \<open>\<open>QgsProject.instance().addMapLayer(layer)\<close> and \<open>time.sleep(secs)\<close>.\<close>

definition add_layer :: "string \<Rightarrow> layer \<Rightarrow> 'e iso_state \<Rightarrow> 'e iso_state" where
  "add_layer name l st = st\<lparr>project := addMapLayer name l (project st)\<rparr>"

definition time_sleep :: "nat \<Rightarrow> 'e iso_state \<Rightarrow> 'e iso_state" where
  "time_sleep secs st = st\<lparr>slept := slept st + secs\<rparr>"

subsection \<open>One iteration of the loop\<close>

text \<open>
  The body of \<open>for point_id in selec_point_ids\<close>: extract the start point and the end
  points into memory layers and register them; inside \<open>try\<close>, run the least-cost-path
  algorithm, register its output, write the mean of the \<open>total cost\<close> attribute into
  the point's row, and sleep two seconds; \<open>except Exception\<close> appends the point id and
  the exception to the error lists. The two extractions lie outside the \<open>try\<close>: an
  exception there ends the script. \<open>corr\<close> is the offset list
  \<open>bufcoordchng_rad2dg_grid1dg\<close>, the default argument of
  \<open>bufpoint_id_generator\<close>; \<open>grid_file\<close> is the content of the shapefile
  \<open>grid1dg_ctrds_cntry_file\<close>. The names under which the memory layers are
  registered (QGIS names them after the algorithms' outputs) are only labels: no
  lemma depends on them.
\<close>

definition isolation_step ::
  "'e lcp_solver \<Rightarrow> feature list \<Rightarrow> int list \<Rightarrow> 'e iso_state \<Rightarrow> int \<Rightarrow> 'e iso_state py_result" where
  "isolation_step solve grid_file corr st point_id =
     (let expr_startpoint = pointexpr_generator point_id in
      case extractbyexpression grid_file expr_startpoint of
        Inl err \<Rightarrow> Inl err
      | Inr lcp_start \<Rightarrow>
          let st1 = add_layer ''Matching features'' (PointLayer lcp_start) st;
              expr_bufpoints = expr_extrbyattr (bufpoint_id_generator point_id corr)
          in case extractbyexpression grid_file expr_bufpoints of
               Inl err \<Rightarrow> Inl err
             | Inr lcp_dests \<Rightarrow>
                 let st2 = add_layer ''Matching features'' (PointLayer lcp_dests) st1 in
                 (case solve lcp_start lcp_dests of
                    Inl exc \<Rightarrow>
                      Inr (st2\<lparr>error_point_list := error_point_list st2 @ [point_id],
                               error_excpt_list := error_excpt_list st2 @ [exc]\<rparr>)
                  | Inr lcp_out \<Rightarrow>
                      let st3 = add_layer ''Least cost path'' (PathLayer lcp_out) st2;
                          av_lcp_cal = np_mean (map total_cost lcp_out);
                          st4 = st3\<lparr>df_cntry := df_loc_set (df_cntry st3) point_id av_lcp_cal\<rparr>
                      in Inr (time_sleep 2 st4)))"

fun isolation_loop ::
  "'e lcp_solver \<Rightarrow> feature list \<Rightarrow> int list \<Rightarrow> 'e iso_state \<Rightarrow> int list \<Rightarrow> 'e iso_state py_result" where
  "isolation_loop solve grid_file corr st [] = Inr st"
| "isolation_loop solve grid_file corr st (point_id # ps) =
     (case isolation_step solve grid_file corr st point_id of
        Inl err \<Rightarrow> Inl err
      | Inr st' \<Rightarrow> isolation_loop solve grid_file corr st' ps)"

text \<open>
  The script from \<open>lyr = QgsProject.instance().mapLayersByName(...)[0]\<close> to the
  end of the loop; \<open>df_cntry.to_csv(...)\<close> writes the final \<open>df_cntry\<close>.
\<close>

definition init_state :: "(int \<times> string) list \<Rightarrow> qgs_project \<Rightarrow> 'e iso_state" where
  "init_state df prj =
     \<lparr>df_cntry = init_lcp_column df, error_point_list = [], error_excpt_list = [],
      project = prj, slept = 0\<rparr>"

definition local_isolation ::
  "'e lcp_solver \<Rightarrow> qgs_project \<Rightarrow> feature list \<Rightarrow> int list \<Rightarrow> int list \<Rightarrow> 'e iso_state py_result" where
  "local_isolation solve prj grid_file corr selec_point_ids =
     (case load_grid prj of
        Inl err \<Rightarrow> Inl err
      | Inr df \<Rightarrow> isolation_loop solve grid_file corr (init_state df prj) selec_point_ids)"

text \<open>
  Three names the script reads are assigned nowhere in the file: the offset list
  \<open>bufcoordchng_rad2dg_grid1dg\<close> (the default argument of
  \<open>bufpoint_id_generator\<close>, evaluated when the \<open>def\<close> of line 158 runs),
  \<open>selec_point_ids\<close> (line 189; its assignment on line 177 is commented out) and
  \<open>tab_output_path\<close> (line 234). \<open>console_ns\<close> is what the interpreter's namespace
  binds for them before the script starts.
\<close>

record console_ns =
  ns_bufcoordchng :: "int list option"
  ns_selec_point_ids :: "int list option"
  ns_tab_output_path :: "string option"

text \<open>
  Lines 233--234, \<open>df_cntry.to_csv(os.path.join(tab_output_path, 'locisol' + '_hmi' +
  '.csv'))\<close>: the path of the file written and its text (\<open>CsvExport\<close>).
\<close>

definition export_table ::
  "(real \<Rightarrow> string) \<Rightarrow> console_ns \<Rightarrow> 'e iso_state \<Rightarrow> (string \<times> string) py_result" where
  "export_table float_repr ns st =
     (case ns_tab_output_path ns of
        None \<Rightarrow> Inl (NameError ''name tab_output_path is not defined'')
      | Some tab_output_path \<Rightarrow>
          Inr (os_path_join tab_output_path (''locisol'' @ ''_hmi'' @ ''.csv''),
               to_csv float_repr (df_cntry st)))"

text \<open>
  The local-isolation script from line 114 to its end, in the order Python runs it: the
  \<open>def\<close> of line 158, loading the layer, the loop over \<open>selec_point_ids\<close>, the
  export.
\<close>

definition isolation_script ::
  "(real \<Rightarrow> string) \<Rightarrow> console_ns \<Rightarrow> 'e lcp_solver \<Rightarrow> qgs_project \<Rightarrow> feature list
   \<Rightarrow> (string \<times> string) py_result" where
  "isolation_script float_repr ns solve prj grid_file =
     (case ns_bufcoordchng ns of
        None \<Rightarrow> Inl (NameError ''name bufcoordchng_rad2dg_grid1dg is not defined'')
      | Some corr \<Rightarrow>
          (case load_grid prj of
             Inl err \<Rightarrow> Inl err
           | Inr df \<Rightarrow>
               (case ns_selec_point_ids ns of
                  None \<Rightarrow> Inl (NameError ''name selec_point_ids is not defined'')
                | Some selec_point_ids \<Rightarrow>
                    (case isolation_loop solve grid_file corr (init_state df prj) selec_point_ids of
                       Inl err \<Rightarrow> Inl err
                     | Inr st \<Rightarrow> export_table float_repr ns st))))"

subsection \<open>The point-by-point specification\<close>

text \<open>
  What the loop computes, stated per point and independently of the order of the
  points (section 5 of the specification: every point is an independent task writing its
  own slot). \<open>lcp_outcome\<close> is the solver's answer for a point, given its start
  point and its neighbour points; \<open>point_value\<close> is the value its row receives, or the
  exception.
\<close>

definition lcp_outcome :: "'e lcp_solver \<Rightarrow> feature list \<Rightarrow> int list \<Rightarrow> int \<Rightarrow> 'e + path_feature list" where
  "lcp_outcome solve grid_file corr p =
     solve (start_points grid_file p) (neighbor_points grid_file p corr)"

definition point_value :: "'e lcp_solver \<Rightarrow> feature list \<Rightarrow> int list \<Rightarrow> int \<Rightarrow> 'e + float64" where
  "point_value solve grid_file corr p =
     (case lcp_outcome solve grid_file corr p of
        Inl exc \<Rightarrow> Inl exc
      | Inr out \<Rightarrow> Inr (np_mean (map total_cost out)))"

definition isolation_table ::
  "'e lcp_solver \<Rightarrow> feature list \<Rightarrow> int list \<Rightarrow> int list \<Rightarrow> row list \<Rightarrow> row list" where
  "isolation_table solve grid_file corr ps df =
     map (\<lambda>r. if row_id r \<in> set ps then
                 (case point_value solve grid_file corr (row_id r) of
                    Inl _ \<Rightarrow> r
                  | Inr v \<Rightarrow> r\<lparr>avlcpcost := v\<rparr>)
               else r) df"

definition failed_points :: "'e lcp_solver \<Rightarrow> feature list \<Rightarrow> int list \<Rightarrow> int list \<Rightarrow> int list" where
  "failed_points solve grid_file corr ps = filter (\<lambda>p. isl (lcp_outcome solve grid_file corr p)) ps"

definition resolved_points :: "'e lcp_solver \<Rightarrow> feature list \<Rightarrow> int list \<Rightarrow> int list \<Rightarrow> int list" where
  "resolved_points solve grid_file corr ps =
     filter (\<lambda>p. \<not> isl (lcp_outcome solve grid_file corr p)) ps"

definition raised :: "'e lcp_solver \<Rightarrow> feature list \<Rightarrow> int list \<Rightarrow> int list \<Rightarrow> 'e list" where
  "raised solve grid_file corr ps =
     concat (map (\<lambda>p. case lcp_outcome solve grid_file corr p of Inl exc \<Rightarrow> [exc] | Inr _ \<Rightarrow> []) ps)"

definition iteration_layers :: "'e lcp_solver \<Rightarrow> feature list \<Rightarrow> int list \<Rightarrow> int \<Rightarrow> qgs_project" where
  "iteration_layers solve grid_file corr p =
     [(''Matching features'', PointLayer (start_points grid_file p)),
      (''Matching features'', PointLayer (neighbor_points grid_file p corr))]
     @ (case lcp_outcome solve grid_file corr p of
          Inl _ \<Rightarrow> []
        | Inr out \<Rightarrow> [(''Least cost path'', PathLayer out)])"

definition loop_spec ::
  "'e lcp_solver \<Rightarrow> feature list \<Rightarrow> int list \<Rightarrow> 'e iso_state \<Rightarrow> int list \<Rightarrow> 'e iso_state" where
  "loop_spec solve grid_file corr st ps =
     st\<lparr>df_cntry := isolation_table solve grid_file corr ps (df_cntry st),
        error_point_list := error_point_list st @ failed_points solve grid_file corr ps,
        error_excpt_list := error_excpt_list st @ raised solve grid_file corr ps,
        project := project st @ concat (map (iteration_layers solve grid_file corr) ps),
        slept := slept st + 2 * length (resolved_points solve grid_file corr ps)\<rparr>"

subsection \<open>The loop implements the specification\<close>

text \<open>The facts the loop proofs unfold: the ledger of the specification, and one iteration.\<close>

lemmas ledger_defs = failed_points_def resolved_points_def raised_def

lemmas iteration_defs = isolation_step_def add_layer_def addMapLayer_def time_sleep_def
  iteration_layers_def lcp_outcome_def

lemma isolation_table_single:
  "point_value solve grid_file corr p = Inr v \<Longrightarrow>
   isolation_table solve grid_file corr [p] df = df_loc_set df p v"
  by (induction df) (auto simp: isolation_table_def df_loc_set_def)

lemma isolation_table_single_failed:
  "isl (point_value solve grid_file corr p) \<Longrightarrow> isolation_table solve grid_file corr [p] df = df"
  by (induction df) (auto simp: isolation_table_def split: sum.splits)

lemma isolation_step_spec:
  assumes "corr \<noteq> []"
  shows "isolation_step solve grid_file corr st p = Inr (loop_spec solve grid_file corr st [p])"
proof (cases "lcp_outcome solve grid_file corr p")
  case (Inl exc)
  then have "isolation_table solve grid_file corr [p] (df_cntry st) = df_cntry st"
    by (intro isolation_table_single_failed) (simp add: point_value_def)
  with Inl assms show ?thesis
    by (simp add: iteration_defs loop_spec_def extract_end_points ledger_defs)
next
  case (Inr out)
  then have "isolation_table solve grid_file corr [p] (df_cntry st)
             = df_loc_set (df_cntry st) p (np_mean (map total_cost out))"
    by (intro isolation_table_single) (simp add: point_value_def)
  with Inr assms show ?thesis
    by (simp add: iteration_defs loop_spec_def extract_end_points ledger_defs)
qed

lemma isolation_table_append:
  "isolation_table solve grid_file corr qs (isolation_table solve grid_file corr ps df)
   = isolation_table solve grid_file corr (ps @ qs) df"
  by (induction df) (auto simp: isolation_table_def split: sum.splits)

lemma loop_spec_append:
  "loop_spec solve grid_file corr (loop_spec solve grid_file corr st ps) qs
   = loop_spec solve grid_file corr st (ps @ qs)"
  by (simp add: loop_spec_def isolation_table_append ledger_defs)

lemma loop_spec_Nil [simp]: "loop_spec solve grid_file corr st [] = st"
  by (simp add: loop_spec_def isolation_table_def ledger_defs)

lemma isolation_loop_eq_spec:
  assumes "corr \<noteq> []"
  shows "isolation_loop solve grid_file corr st ps = Inr (loop_spec solve grid_file corr st ps)"
proof (induction ps arbitrary: st)
  case Nil
  show ?case by simp
next
  case (Cons p ps)
  then show ?case
    by (simp add: isolation_step_spec [OF assms] loop_spec_append)
qed

lemma export_table_Inr:
  "export_table float_repr ns st = Inr (path, text) \<Longrightarrow> text = to_csv float_repr (df_cntry st)"
  by (auto simp: export_table_def split: option.splits)

lemma isolation_table_row:
  "point_value solve grid_file corr p = Inr v \<Longrightarrow> p \<in> set ps \<Longrightarrow>
   list_all (\<lambda>r. avlcpcost r = v) (filter (\<lambda>r. row_id r = p) (isolation_table solve grid_file corr ps df))"
  by (induction df) (auto simp: isolation_table_def split: sum.splits)

lemma isolation_loop_no_offsets:
  "isolation_loop solve grid_file [] st ps =
     (if ps = [] then Inr st else Inl (QgsProcessingException ''Evaluation error in expression''))"
  by (cases ps) (simp_all add: isolation_step_def extract_end_points_empty_offsets)

lemma isolation_loop_Inr_offsets:
  "isolation_loop solve grid_file corr st ps = Inr st' \<Longrightarrow> p \<in> set ps \<Longrightarrow> corr \<noteq> []"
  by (auto simp: isolation_loop_no_offsets split: if_splits)

lemma isolation_step_keys:
  "isolation_step solve grid_file corr st p = Inr st' \<Longrightarrow>
   df_keys (df_cntry st') = df_keys (df_cntry st)"
  by (auto simp: isolation_step_def add_layer_def time_sleep_def Let_def split: sum.splits)

lemma isolation_loop_keys:
  "isolation_loop solve grid_file corr st ps = Inr st' \<Longrightarrow>
   df_keys (df_cntry st') = df_keys (df_cntry st)"
proof (induction ps arbitrary: st)
  case (Cons p ps)
  then show ?case by (auto split: sum.splits dest: isolation_step_keys)
qed simp

lemma start_points_differ:
  assumes "p \<in> fid ` set grid_file" and "q \<noteq> p"
  shows "start_points grid_file q \<noteq> start_points grid_file p"
proof -
  from assms(1) obtain f where "f \<in> set grid_file" and "fid f = p" by auto
  then have "f \<in> set (start_points grid_file p)" by (simp add: start_points_def)
  moreover have "f \<notin> set (start_points grid_file q)"
    using \<open>fid f = p\<close> assms(2) by (simp add: start_points_def)
  ultimately show ?thesis by metis
qed

lemma isolation_table_ignores:
  assumes "\<And>q. q \<noteq> p \<Longrightarrow> point_value solve grid_file corr q = point_value solve' grid_file corr q"
  shows "filter (\<lambda>r. row_id r \<noteq> p) (isolation_table solve grid_file corr ps df)
         = filter (\<lambda>r. row_id r \<noteq> p) (isolation_table solve' grid_file corr ps df)"
  using assms by (induction df) (auto simp: isolation_table_def split: sum.splits)

lemma isolation_table_set:
  "set ps = set qs \<Longrightarrow> isolation_table solve grid_file corr ps df = isolation_table solve grid_file corr qs df"
  by (simp add: isolation_table_def)

lemma isolation_table_init:
  "isolation_table solve grid_file corr ps (init_lcp_column df) =
   map (\<lambda>(i, c). \<lparr>row_id = i, row_isocode = c,
          avlcpcost = (if i \<in> set ps then
                         (case point_value solve grid_file corr i of Inl _ \<Rightarrow> NaN | Inr v \<Rightarrow> v)
                       else NaN)\<rparr>) df"
  by (induction df) (auto simp: isolation_table_def init_lcp_column_def split: sum.splits)

subsection \<open>Properties of the loop\<close>

text \<open>
  C1. Refinement: with a non-empty offset list the loop always returns, and its final state
  is the point-by-point specification \<open>loop_spec\<close>: every row of a listed point
  holds the mean path cost its own solver call produced (or is left as it was when the
  call raised), the error lists hold the failed points and their exceptions in loop
  order, the project holds the layers of every iteration, and two seconds were slept per
  resolved point.
\<close>

theorem isolation_loop_refines:
  assumes "corr \<noteq> []"
  shows "isolation_loop solve grid_file corr st ps = Inr (loop_spec solve grid_file corr st ps)"
  using assms by (rule isolation_loop_eq_spec)

text \<open>
  C2. The table of the local-isolation algorithm (\<open>local_isolation\<close>, lines 172--232,
  with the offset list and the point list the console binds; the script as a whole, with
  its \<open>NameError\<close>s and the export, is C22): when the grid layer is loaded and the
  offsets are not empty, the algorithm returns, and its table has one row per grid
  feature, in layer order, holding the feature's id and isocode and, for a listed point
  whose solver call returned, the mean of the path costs; every other cell is NaN.
\<close>

theorem local_isolation_table:
  assumes "corr \<noteq> []" and "load_grid prj = Inr df"
  shows "\<exists>st. local_isolation solve prj grid_file corr ps = Inr st \<and>
           df_cntry st = map (\<lambda>(i, c). \<lparr>row_id = i, row_isocode = c,
              avlcpcost = (if i \<in> set ps then
                             (case point_value solve grid_file corr i of Inl _ \<Rightarrow> NaN | Inr v \<Rightarrow> v)
                           else NaN)\<rparr>) df"
  using assms
  by (simp add: local_isolation_def isolation_loop_eq_spec loop_spec_def init_state_def
      isolation_table_init)

text \<open>
  C3. The isolation value is the arithmetic mean: when the solver returns paths whose
  costs are the numbers \<open>costs\<close> (none of them NaN, at least one), the iteration for the
  point writes \<open>sum costs / length costs\<close> into the point's row.
\<close>

theorem isolation_step_mean:
  assumes "corr \<noteq> []"
    and "solve (start_points grid_file p) (neighbor_points grid_file p corr) = Inr out"
    and "map total_cost out = map Some costs" and "costs \<noteq> []"
  shows "\<exists>st'. isolation_step solve grid_file corr st p = Inr st' \<and>
           df_cntry st' = df_loc_set (df_cntry st) p (Some (sum_list costs / real (length costs)))"
proof -
  have "point_value solve grid_file corr p = Inr (Some (sum_list costs / real (length costs)))"
    using assms(2-4) by (simp add: point_value_def lcp_outcome_def py_simps)
  then show ?thesis
    using assms(1)
    by (simp add: isolation_step_spec loop_spec_def isolation_table_single)
qed

text \<open>
  C4. Exactly one record per catalog point: whatever the offsets and the solver, if the
  script returns, its table has exactly the rows loaded from the grid layer, with their ids
  and isocodes, in the same order (no row is added, dropped or duplicated).
\<close>

theorem isolation_keeps_rows:
  assumes "load_grid prj = Inr df"
    and "local_isolation solve prj grid_file corr ps = Inr st"
  shows "df_keys (df_cntry st) = df"
proof -
  have "isolation_loop solve grid_file corr (init_state df prj) ps = Inr st"
    using assms by (simp add: local_isolation_def)
  then show ?thesis
    by (auto dest!: isolation_loop_keys simp: init_state_def)
qed

text \<open>
  C5. The error ledger: the loop appends to \<open>error_point_list\<close> exactly the points for
  which the least-cost-path call raised, in loop order, and to \<open>error_excpt_list\<close>
  their exceptions.
\<close>

theorem error_ledger_solver_failures:
  assumes "corr \<noteq> []"
  shows "\<exists>st'. isolation_loop solve grid_file corr st ps = Inr st' \<and>
           error_point_list st' = error_point_list st @
             filter (\<lambda>p. isl (solve (start_points grid_file p) (neighbor_points grid_file p corr))) ps \<and>
           error_excpt_list st' = error_excpt_list st @
             concat (map (\<lambda>p. case solve (start_points grid_file p) (neighbor_points grid_file p corr) of
                                Inl exc \<Rightarrow> [exc] | Inr _ \<Rightarrow> []) ps)"
  using assms
  by (simp add: isolation_loop_eq_spec loop_spec_def ledger_defs lcp_outcome_def)

text \<open>
  C6. A point without neighbours is not recorded as an error: the script calls the solver
  even when the end-point layer is empty, and when the solver returns no path instead of
  raising, the point's row is written with NaN and no entry is added to the error lists
  (the specification asks for no solver call and one \<open>NoNeighbors\<close> entry).
\<close>

theorem no_neighbors_not_recorded:
  assumes "corr \<noteq> []" and "neighbor_points grid_file p corr = []"
    and "solve (start_points grid_file p) [] = Inr []"
  shows "\<exists>st'. isolation_step solve grid_file corr st p = Inr st' \<and>
           error_point_list st' = error_point_list st \<and>
           error_excpt_list st' = error_excpt_list st \<and>
           df_cntry st' = df_loc_set (df_cntry st) p NaN"
proof -
  have "point_value solve grid_file corr p = Inr NaN"
    using assms(2,3) by (simp add: point_value_def lcp_outcome_def py_simps)
  moreover have "lcp_outcome solve grid_file corr p = Inr []"
    using assms(2,3) by (simp add: lcp_outcome_def)
  ultimately show ?thesis
    using assms(1)
    by (simp add: isolation_step_spec loop_spec_def isolation_table_single ledger_defs)
qed

text \<open>
  C7. Partial-failure isolation: replacing the solver's answer for one catalog point
  \<open>p\<close> (for instance by an exception) changes no row of any other point.
\<close>

theorem partial_failure_isolation:
  assumes "corr \<noteq> []" and "p \<in> fid ` set grid_file"
    and "\<forall>s d. s \<noteq> start_points grid_file p \<longrightarrow> solve' s d = solve s d"
  shows "\<exists>st1 st2. isolation_loop solve grid_file corr st ps = Inr st1 \<and>
           isolation_loop solve' grid_file corr st ps = Inr st2 \<and>
           filter (\<lambda>r. row_id r \<noteq> p) (df_cntry st1) = filter (\<lambda>r. row_id r \<noteq> p) (df_cntry st2)"
proof -
  have "\<And>q. q \<noteq> p \<Longrightarrow> point_value solve grid_file corr q = point_value solve' grid_file corr q"
    using assms(2,3) start_points_differ by (simp add: point_value_def lcp_outcome_def)
  then have "filter (\<lambda>r. row_id r \<noteq> p) (isolation_table solve grid_file corr ps (df_cntry st))
             = filter (\<lambda>r. row_id r \<noteq> p) (isolation_table solve' grid_file corr ps (df_cntry st))"
    by (rule isolation_table_ignores)
  then show ?thesis
    using assms(1) by (simp add: isolation_loop_eq_spec loop_spec_def)
qed

text \<open>
  C8. The table does not depend on the order of the points: two runs over lists with the
  same points (in any order, with any repetitions) produce the same table.
\<close>

theorem table_order_independent:
  assumes "corr \<noteq> []" and "set ps = set qs"
  shows "\<exists>st1 st2. isolation_loop solve grid_file corr st ps = Inr st1 \<and>
           isolation_loop solve grid_file corr st qs = Inr st2 \<and> df_cntry st1 = df_cntry st2"
  using assms
  by (simp add: isolation_loop_eq_spec loop_spec_def isolation_table_set [OF assms(2)])

text \<open>
  C9. The throttle: the loop sleeps two seconds after each point whose solver call
  returned, and never after a failed one.
\<close>

theorem throttle_after_success:
  assumes "corr \<noteq> []"
  shows "\<exists>st'. isolation_loop solve grid_file corr st ps = Inr st' \<and>
           slept st' = slept st + 2 * length
             (filter (\<lambda>p. \<not> isl (solve (start_points grid_file p) (neighbor_points grid_file p corr))) ps)"
  using assms
  by (simp add: isolation_loop_eq_spec loop_spec_def resolved_points_def lcp_outcome_def)

text \<open>
  C10. Temporary layers are never released: the project keeps every layer it had and gains
  two extraction layers per point and one path layer per resolved point (\<open>del\<close> only
  unbinds the Python names, and only on the success path).
\<close>

theorem layers_never_released:
  assumes "corr \<noteq> []"
  shows "\<exists>st'. isolation_loop solve grid_file corr st ps = Inr st' \<and>
           take (length (project st)) (project st') = project st \<and>
           length (project st') = length (project st) + 2 * length ps
             + length (resolved_points solve grid_file corr ps)"
proof -
  have "length (concat (map (iteration_layers solve grid_file corr) ps))
        = 2 * length ps + length (resolved_points solve grid_file corr ps)"
    by (induction ps) (auto simp: iteration_layers_def resolved_points_def split: sum.splits)
  then show ?thesis
    using assms by (simp add: isolation_loop_eq_spec loop_spec_def)
qed

text \<open>
  C11. An empty offset list aborts the script: the end-point expression is
  \<open>id IN ()\<close>, which does not parse, and its extraction lies outside the \<open>try\<close>,
  so the first iteration ends the run with the exception.
\<close>

theorem empty_offsets_abort:
  "isolation_loop solve grid_file [] st (p # ps)
   = Inl (QgsProcessingException ''Evaluation error in expression'')"
  by (simp add: isolation_step_def extract_end_points_empty_offsets)


text \<open>
  C22. The local-isolation script end to end: it raises \<open>NameError\<close> at line 158
  unless the offset list is bound, then fails as \<open>load_grid\<close> fails, raises
  \<open>NameError\<close> at line 189 unless the point list is bound, aborts on an empty offset
  list with points to process, and otherwise runs the whole loop and then raises
  \<open>NameError\<close> at line 234 unless \<open>tab_output_path\<close> is bound, in which case it
  writes \<open>locisol_hmi.csv\<close> holding the CSV text of the point-by-point table.
\<close>

theorem isolation_script_outcome:
  "isolation_script float_repr ns solve prj grid_file =
     (case ns_bufcoordchng ns of
        None \<Rightarrow> Inl (NameError ''name bufcoordchng_rad2dg_grid1dg is not defined'')
      | Some corr \<Rightarrow>
          (case load_grid prj of
             Inl err \<Rightarrow> Inl err
           | Inr df \<Rightarrow>
               (case ns_selec_point_ids ns of
                  None \<Rightarrow> Inl (NameError ''name selec_point_ids is not defined'')
                | Some ps \<Rightarrow>
                    if corr = [] \<and> ps \<noteq> [] then
                      Inl (QgsProcessingException ''Evaluation error in expression'')
                    else
                      (case ns_tab_output_path ns of
                         None \<Rightarrow> Inl (NameError ''name tab_output_path is not defined'')
                       | Some path \<Rightarrow>
                           Inr (os_path_join path ''locisol_hmi.csv'',
                                to_csv float_repr
                                  (isolation_table solve grid_file corr ps (init_lcp_column df)))))))"
proof (cases "ns_bufcoordchng ns")
  case (Some corr)
  show ?thesis
  proof (cases "corr = []")
    case True
    with Some show ?thesis
      by (simp add: isolation_script_def export_table_def init_state_def isolation_table_def
          isolation_loop_no_offsets split: sum.split option.split)
  next
    case False
    with Some show ?thesis
      by (simp add: isolation_script_def export_table_def isolation_loop_eq_spec loop_spec_def
          init_state_def split: sum.split option.split)
  qed
qed (simp add: isolation_script_def)

text \<open>
  C23. Every listed point is handled: after the loop, a point whose solver call raised is
  in the error lists with its exception, and every row of a point whose call returned
  holds the point's value.
\<close>

theorem every_point_handled:
  assumes "corr \<noteq> []" and "p \<in> set ps"
  shows "\<exists>st'. isolation_loop solve grid_file corr st ps = Inr st' \<and>
           (case point_value solve grid_file corr p of
              Inl exc \<Rightarrow> p \<in> set (error_point_list st') \<and> exc \<in> set (error_excpt_list st')
            | Inr v \<Rightarrow> list_all (\<lambda>r. avlcpcost r = v) (filter (\<lambda>r. row_id r = p) (df_cntry st')))"
proof (cases "lcp_outcome solve grid_file corr p")
  case (Inl exc)
  then have "exc \<in> set (raised solve grid_file corr ps)"
    using assms(2) by (force simp: raised_def)
  with Inl assms show ?thesis
    by (simp add: isolation_loop_eq_spec loop_spec_def point_value_def failed_points_def)
next
  case (Inr out)
  then have "point_value solve grid_file corr p = Inr (np_mean (map total_cost out))"
    by (simp add: point_value_def)
  then have "list_all (\<lambda>r. avlcpcost r = np_mean (map total_cost out))
               (filter (\<lambda>r. row_id r = p) (isolation_table solve grid_file corr ps (df_cntry st)))"
    using assms(2) by (rule isolation_table_row)
  with Inr assms(1) show ?thesis
    by (simp add: isolation_loop_eq_spec loop_spec_def point_value_def)
qed

end
