(* ===== verification/Volatility.thy ===== *)
theory Volatility
  imports GridCatalog
begin

text \<open>
  The interannual climatic volatility script (first half of
  \<open>src/interyear_climatic_volatility_pyqgis.py\<close>, lines 1--93): its module globals,
  the generators of the QGIS raster-calculator formulas for the interannual mean and
  standard deviation of one calendar month, and \<open>sd_raster_generator\<close>, which runs the
  raster calculator twice and registers the two result layers. The raster calculator is
  an injected capability \<open>calc\<close> from the expression, the input layer sources and the
  output path to the path of the raster it wrote. The lemmas show that the average-formula
  generator raises on every input (it iterates over \<open>layer_number_list[0]\<close>, an
  \<open>int\<close>), so that the whole script raises before any raster is computed, and what the
  layer numbers of the standard-deviation formula select.
\<close>

subsection \<open>Module globals\<close>

text \<open>
  Lines 18--24. \<open>nc_layer_name\<close> is not assigned anywhere in the file: the module only
  runs if the interpreter's namespace \<open>env\<close> already binds it (for instance in a QGIS
  console where the user set it). The em dash of \<open>' \<mdash> pre@'\<close> is written as its
  three UTF-8 bytes.
\<close>

record climate_globals =
  g_nc_input_path :: string
  g_l_prefix_prec :: string
  g_nc_layer_input_pathname :: string
  g_output_path :: string
  g_raster_nameroot :: string

definition em_dash :: string where
  "em_dash = [char_of (226::nat), char_of (128::nat), char_of (148::nat)]"

definition climate_module_init :: "(string \<Rightarrow> string option) \<Rightarrow> climate_globals py_result" where
  \<open>climate_module_init env =
     (let nc_input_path = ''cru_ts4.07.1961.1970.pre.dat'' in
      case env ''nc_layer_name'' of
        None \<Rightarrow> Inl (NameError ''name nc_layer_name is not defined'')
      | Some nc_layer_name \<Rightarrow>
          let l_prefix_prec = nc_layer_name @ '' '' @ em_dash @ '' pre@'';
              nc_layer_input_pathname =
                ''NETCDF:'' @ os_path_join nc_input_path l_prefix_prec @ ''.nc":pre'';
              output_path = [];
              raster_for_calculation = ''prec''
          in Inr \<lparr>g_nc_input_path = nc_input_path, g_l_prefix_prec = l_prefix_prec,
                  g_nc_layer_input_pathname = nc_layer_input_pathname,
                  g_output_path = output_path, g_raster_nameroot = raster_for_calculation\<rparr>)\<close>

subsection \<open>Formula generators\<close>

text \<open>\<open>list(range(month, month + num_years*12, 12))\<close> (lines 32 and 48).\<close>

definition layer_number_list :: "int \<Rightarrow> int \<Rightarrow> int list py_result" where
  "layer_number_list month num_years = py_range month (month + num_years * 12) 12"

text \<open>
  \<open>av_formula_generator\<close> (lines 26--35). Line 33 iterates over
  \<open>layer_number_list[0]\<close>: indexing an empty list raises \<open>IndexError\<close>, iterating an
  \<open>int\<close> raises \<open>TypeError\<close>; lines 34--35 are modelled as written although no input
  reaches them.
\<close>

definition av_formula_generator :: "int \<Rightarrow> string \<Rightarrow> int \<Rightarrow> string py_result" where
  \<open>av_formula_generator month l_prefix num_years =
     (case layer_number_list month num_years of
        Inl err \<Rightarrow> Inl err
      | Inr lst \<Rightarrow>
          (case py_index lst 0 of
             Inl err \<Rightarrow> Inl err
           | Inr first \<Rightarrow>
               (case py_iter_int first of
                  Inl err \<Rightarrow> Inl err
                | Inr items \<Rightarrow>
                    let av_formula = map (\<lambda>i. ''"'' @ l_prefix @ py_str_int i @ ''"'') items
                    in Inr (''1/'' @ py_str_int num_years @ ''*('' @ py_join '' + '' av_formula @ '')''))))\<close>

text \<open>Lines 49--50: the standard-deviation formula over the given layer numbers.\<close>

definition sd_formula_text :: "string \<Rightarrow> int \<Rightarrow> string \<Rightarrow> int list \<Rightarrow> string" where
  \<open>sd_formula_text l_prefix num_years av_layer_name layers =
     (let sd_formula = map (\<lambda>i. ''("'' @ l_prefix @ py_str_int i @ ''" - "'' @ av_layer_name @ ''")^2'') layers
      in ''sqrt('' @ ''1'' @ ''/'' @ py_str_int num_years @ ''*('' @ py_join '' + '' sd_formula @ ''))'')\<close>

text \<open>\<open>sd_formula_generator\<close> (lines 37--51): it calls the average generator first.\<close>

definition sd_formula_generator :: "int \<Rightarrow> string \<Rightarrow> int \<Rightarrow> string \<Rightarrow> string py_result" where
  "sd_formula_generator month l_prefix num_years av_layer_name =
     (case av_formula_generator month l_prefix num_years of
        Inl err \<Rightarrow> Inl err
      | Inr av_formula \<Rightarrow>
          (case layer_number_list month num_years of
             Inl err \<Rightarrow> Inl err
           | Inr layers \<Rightarrow> Inr (sd_formula_text l_prefix num_years av_layer_name layers)))"

subsection \<open>The raster generator\<close>

text \<open>
  \<open>processing.run("qgis:rastercalculator", params)['OUTPUT']\<close> with the expression,
  the input layers and the output file of \<open>params\<close> (the constant \<open>CELLSIZE\<close>,
  \<open>CRS\<close> and \<open>EXTENT\<close> entries are not modelled).
\<close>

type_synonym raster_calc = "string \<Rightarrow> string list \<Rightarrow> string \<Rightarrow> string py_result"

definition sd_raster_generator ::
  "raster_calc \<Rightarrow> int \<Rightarrow> string \<Rightarrow> int \<Rightarrow> string list \<Rightarrow> string \<Rightarrow> string \<Rightarrow> qgs_project
   \<Rightarrow> qgs_project py_result" where
  "sd_raster_generator calc month l_prefix num_years input_layer output_path raster_nameroot prj =
     (case av_formula_generator month l_prefix num_years of
        Inl err \<Rightarrow> Inl err
      | Inr av_formula \<Rightarrow>
          let av_out = os_path_join output_path (''av_'' @ raster_nameroot @ py_str_int month @ ''.tiff'')
          in case calc av_formula input_layer av_out of
               Inl err \<Rightarrow> Inl err
             | Inr av_raster \<Rightarrow>
                 let prj1 = addMapLayer ''av_templayer'' (RasterLayer av_raster) prj
                 in case sd_formula_generator month l_prefix num_years (''av_templayer'' @ ''@1'') of
                      Inl err \<Rightarrow> Inl err
                    | Inr sd_formula \<Rightarrow>
                        let sd_out = os_path_join output_path
                                       (''sd_'' @ raster_nameroot @ py_str_int month @ ''.tiff'')
                        in case calc sd_formula (input_layer @ [av_raster]) sd_out of
                             Inl err \<Rightarrow> Inl err
                           | Inr sd_raster \<Rightarrow>
                               Inr (addMapLayer (''sd_templayer_mth'' @ py_str_int month)
                                      (RasterLayer sd_raster) prj1))"

text \<open>Line 93: \<open>sd_raster_generator(month = 5)\<close> with the default arguments.\<close>

definition climate_main :: "raster_calc \<Rightarrow> climate_globals \<Rightarrow> qgs_project \<Rightarrow> qgs_project py_result" where
  "climate_main calc g prj =
     sd_raster_generator calc 5 (g_l_prefix_prec g) 10 [g_nc_layer_input_pathname g] (g_output_path g)
       (g_raster_nameroot g) prj"

text \<open>The whole first script: the module globals, then line 93.\<close>

definition climate_script :: "raster_calc \<Rightarrow> (string \<Rightarrow> string option) \<Rightarrow> qgs_project \<Rightarrow> qgs_project py_result" where
  "climate_script calc env prj =
     (case climate_module_init env of
        Inl err \<Rightarrow> Inl err
      | Inr g \<Rightarrow> climate_main calc g prj)"

text \<open>
  The layer numbering of a CRU TS monthly file (not part of the repository): layer
  \<open>i\<close>, counted from 1, holds calendar month \<open>(i - 1) mod 12 + 1\<close> of year
  \<open>(i - 1) div 12\<close> of the series.
\<close>

definition cru_month :: "int \<Rightarrow> int" where
  "cru_month i = (i - 1) mod 12 + 1"

definition cru_year :: "int \<Rightarrow> int" where
  "cru_year i = (i - 1) div 12"

text \<open>The exception \<open>av_formula_generator\<close> raises for a number of years.\<close>

definition av_error :: "int \<Rightarrow> py_error" where
  "av_error num_years =
     (if 0 < num_years then TypeError ''int object is not iterable''
      else IndexError ''list index out of range'')"

subsection \<open>Lemmas\<close>

lemma em_dash_quote_free: "count_list em_dash (CHR 0x22) = 0"
proof -
  have q: "char_of n \<noteq> CHR 0x22" if "n \<in> {226, 128, 148::nat}" for n
  proof
    assume "char_of n = CHR 0x22"
    then have "of_char (char_of n) = (of_char (CHR 0x22) :: nat)" by simp
    with that show False by auto
  qed
  show ?thesis using q [of 226] q [of 128] q [of 148] by (simp add: em_dash_def)
qed

lemma layer_number_list_arith:
  assumes "0 \<le> n"
  shows "layer_number_list m n = Inr (map (\<lambda>k. m + 12 * int k) [0..<nat n])"
proof -
  have "range_from m (m + 12 * int (nat n)) 12 = map (\<lambda>k. m + 12 * int k) [0..<nat n]"
    by (rule range_from_arith) simp
  moreover have "int (nat n) = n" using assms by simp
  ultimately show ?thesis
    by (simp add: layer_number_list_def py_range_def mult.commute)
qed

lemma layer_number_list_nonpos:
  assumes "n \<le> 0"
  shows "layer_number_list m n = Inr []"
  using assms by (simp add: layer_number_list_def py_range_def range_from.simps)

lemma av_formula_generator_error:
  "av_formula_generator month l_prefix num_years = Inl (av_error num_years)"
proof (cases "0 < num_years")
  case True
  then have "layer_number_list month num_years = Inr (month # map (\<lambda>k. month + 12 * int k) [1..<nat num_years])"
    by (simp add: layer_number_list_arith upt_conv_Cons del: upt_Suc)
  with True show ?thesis
    by (simp add: av_formula_generator_def av_error_def py_index_def py_iter_int_def)
next
  case False
  then show ?thesis
    by (simp add: av_formula_generator_def av_error_def layer_number_list_nonpos py_index_def)
qed

lemma sd_formula_generator_error:
  "sd_formula_generator month l_prefix num_years av_layer_name = Inl (av_error num_years)"
  by (simp add: sd_formula_generator_def av_formula_generator_error)

subsection \<open>Properties of the volatility script\<close>

text \<open>
  C18. The average-formula generator raises on every input: with at least one year the
  comprehension of line 33 iterates over the integer \<open>layer_number_list[0]\<close> and
  raises \<open>TypeError\<close>; with no year the index \<open>[0]\<close> raises \<open>IndexError\<close>.
  No formula string is ever returned.
\<close>

theorem av_formula_generator_raises:
  "av_formula_generator month l_prefix num_years =
     Inl (if 0 < num_years then TypeError ''int object is not iterable''
          else IndexError ''list index out of range'')"
  using av_formula_generator_error by (simp add: av_error_def)

text \<open>
  C19. \<open>sd_raster_generator\<close> raises the same exception before it runs the raster
  calculator: no raster is written and no layer is registered, whatever the calculator
  and the arguments.
\<close>

theorem sd_raster_generator_raises:
  "sd_raster_generator calc month l_prefix num_years input_layer output_path raster_nameroot prj
   = Inl (av_error num_years)"
  by (simp add: sd_raster_generator_def av_formula_generator_error)

text \<open>
  C20. The volatility script as a whole always ends with an exception: \<open>NameError\<close>
  at line 19 when \<open>nc_layer_name\<close> is not bound beforehand, otherwise the
  \<open>TypeError\<close> of line 33 reached through the call of line 93 (ten years).
\<close>

theorem climate_script_raises:
  "climate_script calc env prj =
     Inl (case env ''nc_layer_name'' of
            None \<Rightarrow> NameError ''name nc_layer_name is not defined''
          | Some _ \<Rightarrow> TypeError ''int object is not iterable'')"
  by (simp add: climate_script_def climate_module_init_def climate_main_def
      sd_raster_generator_def av_formula_generator_error av_error_def Let_def
      split: option.split)

text \<open>
  C21. The layer numbers the standard-deviation formula reads for a calendar month
  \<open>month\<close> (1 to 12) over \<open>num_years\<close> years are exactly that month's layers of the
  CRU file, one per year, for the years \<open>0, \<dots>, num_years - 1\<close> in order.
\<close>

theorem sd_layers_select_month:
  assumes "1 \<le> month" and "month \<le> 12" and "0 \<le> num_years"
  shows "\<exists>layers. layer_number_list month num_years = Inr layers \<and>
           map cru_month layers = replicate (nat num_years) month \<and>
           map cru_year layers = map int [0..<nat num_years]"
proof -
  have split: "month + 12 * int k - 1 = (month - 1) + int k * 12" for k
    by simp
  have m: "cru_month (month + 12 * int k) = month" for k
    using assms(1,2) by (simp only: cru_month_def split mod_mult_self1) simp
  have y: "cru_year (month + 12 * int k) = int k" for k
    unfolding cru_year_def split using assms(1,2) by simp
  show ?thesis
    using assms(3) by (simp add: layer_number_list_arith comp_def m y map_replicate_const)
qed

text \<open>
  C24. The GDAL subdataset path built on line 20 is malformed: for a layer name without
  double quotes, \<open>nc_layer_input_pathname\<close> contains exactly one double quote (the
  one before \<open>:pre\<close>), whereas GDAL's syntax \<open>NETCDF:"file":variable\<close> needs a
  pair around the file name.
\<close>

theorem netcdf_path_unbalanced_quote:
  assumes "env ''nc_layer_name'' = Some n" and "CHR 0x22 \<notin> set n"
  shows "\<exists>g. climate_module_init env = Inr g \<and> count_list (g_nc_layer_input_pathname g) (CHR 0x22) = 1"
proof -
  have n: "count_list n (CHR 0x22) = 0"
    using assms(2) by (simp add: count_list_0_iff)
  then show ?thesis
    using assms(1)
    by (simp add: climate_module_init_def os_path_join_def em_dash_quote_free Let_def)
qed

end
