(* ===== verification/RasterCalc.thy ===== *)
theory RasterCalc
  imports QgsLex "HOL-Library.Monad_Syntax"
begin

text \<open>
  The QGIS raster calculator (\<open>qgis:rastercalculator\<close>), which evaluates the formulas
  the volatility script generates. It is not part of the repository; this theory models
  the part of its expression language the script uses, after QGIS's lexer and parser
  (\<open>qgsrastercalclexer.ll\<close>, \<open>qgsrastercalcparser.yy\<close>) and its cell-wise
  evaluation (\<open>QgsRasterCalcNode\<close>, \<open>QgsRasterMatrix\<close>): decimal integer
  literals, band references in double quotes, the operators \<open>+ - * / ^\<close> with
  bison's precedences (\<open>^\<close> right-associative, unary minus binding tightest),
  parentheses and the function \<open>sqrt\<close>. A cell value is a \<open>real option\<close>,
  \<open>None\<close> the no-data value: it propagates through every operator, and division by
  zero, the square root of a negative number and an invalid power give no-data.
\<close>

subsection \<open>Tokens and the lexer\<close>

datatype rc_token = RcNum nat | RcRef string | RcFun string | RcOp char | RcLParen | RcRParen

definition rc_is_alpha :: "char \<Rightarrow> bool" where
  "rc_is_alpha c \<longleftrightarrow> (97::nat) \<le> of_char c \<and> of_char c \<le> (122::nat)"

text \<open>
  The body of a quoted band reference, up to the closing quote. A backslash escape is
  outside the modelled subset and is rejected.
\<close>

fun rc_quoted :: "string \<Rightarrow> (string \<times> string) option" where
  "rc_quoted [] = None"
| "rc_quoted (c # s) =
     (if c = CHR 0x22 then Some ([], s)
      else if c = CHR 0x5C then None
      else map_option (\<lambda>(r, t). (c # r, t)) (rc_quoted s))"

function rc_lex :: "string \<Rightarrow> rc_token list option" where
  "rc_lex [] = Some []"
| "rc_lex (c # s) =
     (if c = CHR '' '' then rc_lex s
      else if c = CHR 0x22 then
        (case rc_quoted s of
           None \<Rightarrow> None
         | Some (r, rest) \<Rightarrow> map_option (Cons (RcRef r)) (rc_lex rest))
      else if py_isdigit c then
        (case parse_nat (c # s) of
           None \<Rightarrow> None
         | Some (n, rest) \<Rightarrow> map_option (Cons (RcNum n)) (rc_lex rest))
      else if c \<in> set ''+-*/^'' then map_option (Cons (RcOp c)) (rc_lex s)
      else if c = CHR ''('' then map_option (Cons RcLParen) (rc_lex s)
      else if c = CHR '')'' then map_option (Cons RcRParen) (rc_lex s)
      else if rc_is_alpha c then
        map_option (Cons (RcFun (c # takeWhile rc_is_alpha s))) (rc_lex (dropWhile rc_is_alpha s))
      else None)"
  by pat_completeness auto

termination rc_lex
proof -
  have q: "rc_quoted s = Some (r, t) \<Longrightarrow> length t < length s" for s r t
    by (induction s arbitrary: r rule: rc_quoted.induct) (auto split: if_splits)
  show ?thesis
    by (relation "measure length") (auto dest: q parse_nat_shorter simp: less_Suc_eq_le length_dropWhile_le)
qed

subsection \<open>Expressions and the parser\<close>

datatype rc_binop = RcPlus | RcMinus | RcTimes | RcDivide | RcPower

datatype rexpr = RNum real | RRef string | RNeg rexpr | RBin rc_binop rexpr rexpr | RSqrt rexpr

text \<open>
  The grammar's nonterminals: a sum of products of powers of unary expressions; the
  \<open>Tail\<close> nonterminals carry the left operand of a left-associative chain.
\<close>

datatype rc_nt = NSum | NSumTail rexpr | NProd | NProdTail rexpr | NPow | NAtom

definition rc_sum_op :: "char \<Rightarrow> rc_binop option" where
  "rc_sum_op c = (if c = CHR ''+'' then Some RcPlus else if c = CHR ''-'' then Some RcMinus else None)"

definition rc_prod_op :: "char \<Rightarrow> rc_binop option" where
  "rc_prod_op c = (if c = CHR ''*'' then Some RcTimes else if c = CHR ''/'' then Some RcDivide else None)"

partial_function (option) rc_parse_nt :: "rc_nt \<Rightarrow> rc_token list \<Rightarrow> (rexpr \<times> rc_token list) option" where
  "rc_parse_nt nt ts =
     (case nt of
        NSum \<Rightarrow> do { (e, ts') \<leftarrow> rc_parse_nt NProd ts; rc_parse_nt (NSumTail e) ts' }
      | NSumTail acc \<Rightarrow>
          (case ts of
             RcOp c # ts' \<Rightarrow>
               (case rc_sum_op c of
                  Some op \<Rightarrow> do { (e, ts'') \<leftarrow> rc_parse_nt NProd ts';
                                 rc_parse_nt (NSumTail (RBin op acc e)) ts'' }
                | None \<Rightarrow> Some (acc, ts))
           | _ \<Rightarrow> Some (acc, ts))
      | NProd \<Rightarrow> do { (e, ts') \<leftarrow> rc_parse_nt NPow ts; rc_parse_nt (NProdTail e) ts' }
      | NProdTail acc \<Rightarrow>
          (case ts of
             RcOp c # ts' \<Rightarrow>
               (case rc_prod_op c of
                  Some op \<Rightarrow> do { (e, ts'') \<leftarrow> rc_parse_nt NPow ts';
                                 rc_parse_nt (NProdTail (RBin op acc e)) ts'' }
                | None \<Rightarrow> Some (acc, ts))
           | _ \<Rightarrow> Some (acc, ts))
      | NPow \<Rightarrow>
          do { (b, ts') \<leftarrow> rc_parse_nt NAtom ts;
               (case ts' of
                  RcOp c # ts'' \<Rightarrow>
                    if c = CHR ''^'' then do { (x, ts3) \<leftarrow> rc_parse_nt NPow ts''; Some (RBin RcPower b x, ts3) }
                    else Some (b, ts')
                | _ \<Rightarrow> Some (b, ts')) }
      | NAtom \<Rightarrow>
          (case ts of
             RcNum n # ts' \<Rightarrow> Some (RNum (real n), ts')
           | RcRef r # ts' \<Rightarrow> Some (RRef r, ts')
           | RcOp c # ts' \<Rightarrow>
               if c = CHR ''-'' then do { (e, ts'') \<leftarrow> rc_parse_nt NAtom ts'; Some (RNeg e, ts'') }
               else None
           | RcLParen # ts' \<Rightarrow>
               do { (e, ts'') \<leftarrow> rc_parse_nt NSum ts';
                    (case ts'' of RcRParen # ts3 \<Rightarrow> Some (e, ts3) | _ \<Rightarrow> None) }
           | RcFun f # RcLParen # ts' \<Rightarrow>
               if f = ''sqrt'' then
                 do { (e, ts'') \<leftarrow> rc_parse_nt NSum ts';
                      (case ts'' of RcRParen # ts3 \<Rightarrow> Some (RSqrt e, ts3) | _ \<Rightarrow> None) }
               else None
           | _ \<Rightarrow> None))"

declare rc_parse_nt.simps [code]

definition rc_parse :: "string \<Rightarrow> rexpr option" where
  "rc_parse s =
     (case rc_lex s of
        None \<Rightarrow> None
      | Some ts \<Rightarrow> (case rc_parse_nt NSum ts of Some (e, []) \<Rightarrow> Some e | _ \<Rightarrow> None))"

subsection \<open>Cell-wise evaluation\<close>

definition rc_power :: "real \<Rightarrow> real \<Rightarrow> real option" where
  "rc_power a b =
     (if (a = 0 \<and> b < 0) \<or> (a < 0 \<and> b \<noteq> of_int \<lfloor>b\<rfloor>) then None
      else if b = of_int \<lfloor>b\<rfloor> then Some (a powi \<lfloor>b\<rfloor>) else Some (a powr b))"

fun rc_binop_eval :: "rc_binop \<Rightarrow> real \<Rightarrow> real \<Rightarrow> real option" where
  "rc_binop_eval RcPlus x y = Some (x + y)"
| "rc_binop_eval RcMinus x y = Some (x - y)"
| "rc_binop_eval RcTimes x y = Some (x * y)"
| "rc_binop_eval RcDivide x y = (if y = 0 then None else Some (x / y))"
| "rc_binop_eval RcPower x y = rc_power x y"

primrec rc_eval :: "(string \<Rightarrow> real option) \<Rightarrow> rexpr \<Rightarrow> real option" where
  "rc_eval v (RNum x) = Some x"
| "rc_eval v (RRef r) = v r"
| "rc_eval v (RNeg e) = map_option uminus (rc_eval v e)"
| "rc_eval v (RBin op a b) =
     (case (rc_eval v a, rc_eval v b) of
        (Some x, Some y) \<Rightarrow> rc_binop_eval op x y
      | _ \<Rightarrow> None)"
| "rc_eval v (RSqrt e) =
     (case rc_eval v e of
        Some x \<Rightarrow> if x < 0 then None else Some (sqrt x)
      | None \<Rightarrow> None)"

text \<open>Names that may stand between the quotes of a band reference.\<close>

definition rc_plain_name :: "string \<Rightarrow> bool" where
  "rc_plain_name r \<longleftrightarrow> CHR 0x22 \<notin> set r \<and> CHR 0x5C \<notin> set r"

text \<open>Token lists after which a product is complete.\<close>

definition rc_prod_end :: "rc_token list \<Rightarrow> bool" where
  "rc_prod_end ts = (case ts of RcOp c # _ \<Rightarrow> c \<notin> set ''*/^'' | _ \<Rightarrow> True)"

subsection \<open>Lemmas on the lexer\<close>

lemmas rc_char_defs = py_isdigit_def rc_is_alpha_def

lemma rc_quoted_plain:
  "rc_plain_name r \<Longrightarrow> rc_quoted (r @ CHR 0x22 # rest) = Some (r, rest)"
  by (induction r) (auto simp: rc_plain_name_def)

lemma rc_lex_ref:
  assumes "rc_plain_name r"
  shows "rc_lex (CHR 0x22 # r @ CHR 0x22 # rest) = map_option (Cons (RcRef r)) (rc_lex rest)"
  using assms by (simp add: rc_quoted_plain)

lemma rc_quoted_plain2:
  "rc_plain_name (r @ s) \<Longrightarrow> rc_quoted (r @ s @ CHR 0x22 # rest) = Some (r @ s, rest)"
  using rc_quoted_plain [of "r @ s" rest] by simp

lemma map_option_append_Cons [simp]:
  "map_option ((@) (x # xs)) r = map_option (Cons x) (map_option ((@) xs) r)"
  "map_option ((@) []) r = r"
  by (cases r; simp)+

lemma parse_nat_digit:
  assumes "py_isdigit c" and "literal_end rest"
  shows "parse_nat (c # rest) = Some (digit_val c, rest)"
  using assms by (cases rest) (simp_all add: parse_nat_def digits_value_def literal_end_def)

lemma rc_lex_digit:
  assumes "py_isdigit c" and "literal_end rest"
  shows "rc_lex (c # rest) = map_option (Cons (RcNum (digit_val c))) (rc_lex rest)"
proof -
  have "c \<noteq> CHR '' ''" "c \<noteq> CHR 0x22" using assms(1) by (auto simp: py_isdigit_def)
  then show ?thesis using assms by (simp add: parse_nat_digit)
qed

lemma rc_lex_nat_digits:
  assumes "literal_end rest"
  shows "rc_lex (nat_digits n @ rest) = map_option (Cons (RcNum n)) (rc_lex rest)"
proof -
  obtain c cs where cs: "nat_digits n = c # cs"
    by (cases "nat_digits n") simp_all
  then have d: "py_isdigit c" using nat_digits_isdigit [of c n] by simp
  then have "c \<noteq> CHR '' ''" "c \<noteq> CHR 0x22" by (auto simp: py_isdigit_def)
  moreover have "parse_nat (nat_digits n @ rest) = Some (n, rest)"
    by (rule parse_nat_nat_digits [OF assms])
  ultimately show ?thesis using d cs by simp
qed

text \<open>The separator of \<open>' + '.join(...)\<close> and a list of pieces, each lexed on its own.\<close>

lemma rc_lex_join:
  assumes pieces: "\<And>x rest. x \<in> set (y # ys) \<Longrightarrow> literal_end rest \<Longrightarrow>
                     rc_lex (f x @ rest) = map_option ((@) (g x)) (rc_lex rest)"
    and "literal_end rest"
  shows "rc_lex (py_join '' + '' (map f (y # ys)) @ rest) =
           map_option ((@) (g y @ concat (map (\<lambda>x. RcOp CHR ''+'' # g x) ys))) (rc_lex rest)"
  using assms
proof (induction ys arbitrary: y)
  case Nil
  then show ?case by simp
next
  case (Cons z zs)
  have "rc_lex (py_join '' + '' (map f (z # zs)) @ rest) =
          map_option ((@) (g z @ concat (map (\<lambda>x. RcOp CHR ''+'' # g x) zs))) (rc_lex rest)"
    using Cons.prems by (intro Cons.IH) auto
  moreover have "rc_lex (f y @ ('' + '' @ py_join '' + '' (map f (z # zs)) @ rest)) =
                   map_option ((@) (g y)) (rc_lex ('' + '' @ py_join '' + '' (map f (z # zs)) @ rest))"
    by (rule Cons.prems(1)) (simp_all add: rc_char_defs)
  ultimately show ?case by (simp add: rc_char_defs option.map_comp comp_def)
qed

subsection \<open>Lemmas on the parser\<close>

lemma rc_parse_NSum:
  "rc_parse_nt NSum ts = do { (e, ts') \<leftarrow> rc_parse_nt NProd ts; rc_parse_nt (NSumTail e) ts' }"
  by (subst rc_parse_nt.simps) simp

lemma rc_parse_NSumTail:
  "rc_parse_nt (NSumTail acc) ts =
     (case ts of
        RcOp c # ts' \<Rightarrow>
          (case rc_sum_op c of
             Some op \<Rightarrow> do { (e, ts'') \<leftarrow> rc_parse_nt NProd ts'; rc_parse_nt (NSumTail (RBin op acc e)) ts'' }
           | None \<Rightarrow> Some (acc, ts))
      | _ \<Rightarrow> Some (acc, ts))"
  by (subst rc_parse_nt.simps) simp

lemma rc_parse_NProd:
  "rc_parse_nt NProd ts = do { (e, ts') \<leftarrow> rc_parse_nt NPow ts; rc_parse_nt (NProdTail e) ts' }"
  by (subst rc_parse_nt.simps) simp

lemma rc_parse_NProdTail:
  "rc_parse_nt (NProdTail acc) ts =
     (case ts of
        RcOp c # ts' \<Rightarrow>
          (case rc_prod_op c of
             Some op \<Rightarrow> do { (e, ts'') \<leftarrow> rc_parse_nt NPow ts'; rc_parse_nt (NProdTail (RBin op acc e)) ts'' }
           | None \<Rightarrow> Some (acc, ts))
      | _ \<Rightarrow> Some (acc, ts))"
  by (subst rc_parse_nt.simps) simp

lemma rc_parse_NPow:
  "rc_parse_nt NPow ts =
     do { (b, ts') \<leftarrow> rc_parse_nt NAtom ts;
          (case ts' of
             RcOp c # ts'' \<Rightarrow>
               if c = CHR ''^'' then do { (x, ts3) \<leftarrow> rc_parse_nt NPow ts''; Some (RBin RcPower b x, ts3) }
               else Some (b, ts')
           | _ \<Rightarrow> Some (b, ts')) }"
  by (subst rc_parse_nt.simps) simp

lemma rc_parse_NAtom:
  "rc_parse_nt NAtom ts =
     (case ts of
        RcNum n # ts' \<Rightarrow> Some (RNum (real n), ts')
      | RcRef r # ts' \<Rightarrow> Some (RRef r, ts')
      | RcOp c # ts' \<Rightarrow>
          if c = CHR ''-'' then do { (e, ts'') \<leftarrow> rc_parse_nt NAtom ts'; Some (RNeg e, ts'') } else None
      | RcLParen # ts' \<Rightarrow>
          do { (e, ts'') \<leftarrow> rc_parse_nt NSum ts'; (case ts'' of RcRParen # ts3 \<Rightarrow> Some (e, ts3) | _ \<Rightarrow> None) }
      | RcFun f # RcLParen # ts' \<Rightarrow>
          if f = ''sqrt'' then
            do { (e, ts'') \<leftarrow> rc_parse_nt NSum ts'; (case ts'' of RcRParen # ts3 \<Rightarrow> Some (RSqrt e, ts3) | _ \<Rightarrow> None) }
          else None
      | _ \<Rightarrow> None)"
  by (subst rc_parse_nt.simps) simp

lemmas rc_parse_eqs = rc_parse_NSum rc_parse_NSumTail rc_parse_NProd rc_parse_NProdTail rc_parse_NPow

text \<open>
  The parser's equations on a token list whose first token is known: with these,
  \<open>simp\<close> reads a concrete prefix and stops at a token list it does not know.
\<close>

lemma rc_parse_step:
  "rc_parse_nt NSum (t # ts) = do { (e, ts') \<leftarrow> rc_parse_nt NProd (t # ts); rc_parse_nt (NSumTail e) ts' }"
  "rc_parse_nt (NSumTail acc) [] = Some (acc, [])"
  "rc_parse_nt (NSumTail acc) (RcOp c # ts) =
     (case rc_sum_op c of
        Some op \<Rightarrow> do { (e, ts'') \<leftarrow> rc_parse_nt NProd ts; rc_parse_nt (NSumTail (RBin op acc e)) ts'' }
      | None \<Rightarrow> Some (acc, RcOp c # ts))"
  "rc_parse_nt (NSumTail acc) (RcRParen # ts) = Some (acc, RcRParen # ts)"
  "rc_parse_nt NProd (t # ts) = do { (e, ts') \<leftarrow> rc_parse_nt NPow (t # ts); rc_parse_nt (NProdTail e) ts' }"
  "rc_parse_nt (NProdTail acc) [] = Some (acc, [])"
  "rc_parse_nt (NProdTail acc) (RcOp c # ts) =
     (case rc_prod_op c of
        Some op \<Rightarrow> do { (e, ts'') \<leftarrow> rc_parse_nt NPow ts; rc_parse_nt (NProdTail (RBin op acc e)) ts'' }
      | None \<Rightarrow> Some (acc, RcOp c # ts))"
  "rc_parse_nt (NProdTail acc) (RcRParen # ts) = Some (acc, RcRParen # ts)"
  "rc_parse_nt NPow (t # ts) =
     do { (b, ts') \<leftarrow> rc_parse_nt NAtom (t # ts);
          (case ts' of
             RcOp c # ts'' \<Rightarrow>
               if c = CHR ''^'' then do { (x, ts3) \<leftarrow> rc_parse_nt NPow ts''; Some (RBin RcPower b x, ts3) }
               else Some (b, ts')
           | _ \<Rightarrow> Some (b, ts')) }"
  "rc_parse_nt NAtom (RcNum n # ts) = Some (RNum (real n), ts)"
  "rc_parse_nt NAtom (RcRef r # ts) = Some (RRef r, ts)"
  "rc_parse_nt NAtom (RcLParen # ts) =
     do { (e, ts'') \<leftarrow> rc_parse_nt NSum ts; (case ts'' of RcRParen # ts3 \<Rightarrow> Some (e, ts3) | _ \<Rightarrow> None) }"
  "rc_parse_nt NAtom (RcFun f # RcLParen # ts) =
     (if f = ''sqrt'' then
        do { (e, ts'') \<leftarrow> rc_parse_nt NSum ts; (case ts'' of RcRParen # ts3 \<Rightarrow> Some (RSqrt e, ts3) | _ \<Rightarrow> None) }
      else None)"
  "rc_parse_nt NAtom (RcOp c # ts) =
     (if c = CHR ''-'' then do { (e, ts'') \<leftarrow> rc_parse_nt NAtom ts; Some (RNeg e, ts'') } else None)"
  "rc_parse_nt NAtom (RcRParen # ts) = None"
  by (subst rc_parse_nt.simps; simp)+

lemma rc_prod_end_simps [simp]:
  "rc_prod_end []"
  "rc_prod_end (RcRParen # ts)"
  "rc_prod_end (RcOp CHR ''+'' # ts)"
  by (simp_all add: rc_prod_end_def)

text \<open>An expression followed by a token that cannot continue a product is read up to that token.\<close>

lemma rc_parse_pow_stop:
  assumes "rc_prod_end rest" and "rc_parse_nt NAtom (ts @ rest) = Some (e, rest)"
  shows "rc_parse_nt NPow (ts @ rest) = Some (e, rest)"
proof (cases rest)
  case (Cons t r)
  then show ?thesis
    using assms by (cases t) (auto simp: rc_parse_NPow rc_prod_end_def)
qed (use assms in \<open>simp add: rc_parse_NPow\<close>)

lemma rc_parse_prod_stop:
  assumes "rc_prod_end rest" and "rc_parse_nt NPow (ts @ rest) = Some (e, rest)"
  shows "rc_parse_nt NProd (ts @ rest) = Some (e, rest)"
proof (cases rest)
  case (Cons t r)
  then show ?thesis
    using assms by (cases t) (auto simp: rc_parse_NProd rc_parse_NProdTail rc_prod_end_def rc_prod_op_def)
qed (use assms in \<open>simp add: rc_parse_NProd rc_parse_NProdTail\<close>)

lemma rc_prod_end_chain:
  "rc_prod_end (concat (map (\<lambda>x. RcOp CHR ''+'' # g x) ys) @ RcRParen # r)"
  by (cases ys) simp_all

text \<open>A chain \<open>t1 + t2 + ... + tn\<close> closed by a parenthesis, parsed left-associatively.\<close>

lemma rc_parse_sum_tail:
  assumes "\<And>x rest. x \<in> set ys \<Longrightarrow> rc_prod_end rest \<Longrightarrow> rc_parse_nt NProd (g x @ rest) = Some (h x, rest)"
  shows "rc_parse_nt (NSumTail acc) (concat (map (\<lambda>x. RcOp CHR ''+'' # g x) ys) @ RcRParen # r) =
           Some (foldl (\<lambda>a x. RBin RcPlus a (h x)) acc ys, RcRParen # r)"
  using assms
proof (induction ys arbitrary: acc)
  case Nil
  then show ?case by (simp add: rc_parse_step)
next
  case (Cons y ys)
  have "rc_parse_nt NProd (g y @ concat (map (\<lambda>x. RcOp CHR ''+'' # g x) ys) @ RcRParen # r) =
          Some (h y, concat (map (\<lambda>x. RcOp CHR ''+'' # g x) ys) @ RcRParen # r)"
    by (rule Cons.prems) (simp_all add: rc_prod_end_chain)
  with Cons show ?case by (simp add: rc_parse_step rc_sum_op_def)
qed

lemma rc_parse_sum_chain:
  assumes "\<And>x rest. x \<in> set (y # ys) \<Longrightarrow> rc_prod_end rest \<Longrightarrow> rc_parse_nt NProd (g x @ rest) = Some (h x, rest)"
  shows "rc_parse_nt NSum (g y @ concat (map (\<lambda>x. RcOp CHR ''+'' # g x) ys) @ RcRParen # r) =
           Some (foldl (\<lambda>a x. RBin RcPlus a (h x)) (h y) ys, RcRParen # r)"
proof -
  have "rc_parse_nt NProd (g y @ concat (map (\<lambda>x. RcOp CHR ''+'' # g x) ys) @ RcRParen # r) =
          Some (h y, concat (map (\<lambda>x. RcOp CHR ''+'' # g x) ys) @ RcRParen # r)"
    by (rule assms) (simp_all add: rc_prod_end_chain)
  moreover have "rc_parse_nt (NSumTail (h y)) (concat (map (\<lambda>x. RcOp CHR ''+'' # g x) ys) @ RcRParen # r) =
                   Some (foldl (\<lambda>a x. RBin RcPlus a (h x)) (h y) ys, RcRParen # r)"
    by (rule rc_parse_sum_tail) (use assms in auto)
  ultimately show ?thesis by (simp add: rc_parse_NSum)
qed

subsection \<open>Lemmas on evaluation\<close>

lemma rc_eval_sum_chain:
  "rc_eval v (foldl (\<lambda>a x. RBin RcPlus a (h x)) e xs) =
     (case (rc_eval v e, those (map (\<lambda>x. rc_eval v (h x)) xs)) of
        (Some a, Some ys) \<Rightarrow> Some (a + sum_list ys)
      | _ \<Rightarrow> None)"
proof (induction xs arbitrary: e)
  case Nil
  then show ?case by (simp split: option.split)
next
  case (Cons x xs)
  then show ?case by (auto simp: algebra_simps split: option.split)
qed

lemma rc_power_numeral [simp]: "rc_power a (numeral k) = Some (a ^ numeral k)"
proof -
  have "\<lfloor>numeral k :: real\<rfloor> = numeral k" by simp
  then show ?thesis by (simp add: rc_power_def power_int_numeral)
qed

lemma those_map_option:
  "those (map (\<lambda>x. map_option f (h x)) xs) = map_option (map f) (those (map h xs))"
  by (induction xs) (auto simp: option.map_comp comp_def split: option.split)

lemma those_length: "those xs = Some ys \<Longrightarrow> length ys = length xs"
  by (induction xs arbitrary: ys) (auto split: option.splits)

end
