(* ===== verification/VolatilityFormulas.thy ===== *)
theory VolatilityFormulas
  imports Volatility RasterCalc
begin

text \<open>
  What the raster calculator computes from the standard-deviation formula string
  \<open>sd_formula_text\<close> of lines 49--50, lexed, parsed and evaluated at one cell by the
  model of \<open>RasterCalc\<close>: the square root of the mean squared deviation of the
  referenced bands from the average layer. Lines 49--50 are never reached when the script
  runs, because line 44 first calls \<open>av_formula_generator\<close>, which always raises
  (\<open>Volatility\<close>); the property is one of the string those lines build.
\<close>

subsection \<open>Definitions\<close>

text \<open>The values at one cell of the bands \<open>l_prefix\<close>\<open>i\<close> for the layer numbers \<open>i\<close>.\<close>

definition band_values :: "(string \<Rightarrow> real option) \<Rightarrow> string \<Rightarrow> int list \<Rightarrow> real list option" where
  "band_values v l_prefix layers = those (map (\<lambda>i. v (l_prefix @ py_str_int i)) layers)"

text \<open>The tokens and the expression of one term \<open>("a" - "b")^2\<close> of line 49.\<close>

definition sd_term_tokens :: "string \<Rightarrow> string \<Rightarrow> rc_token list" where
  "sd_term_tokens a b = [RcLParen, RcRef a, RcOp CHR ''-'', RcRef b, RcRParen, RcOp CHR ''^'', RcNum 2]"

definition sd_term_expr :: "string \<Rightarrow> string \<Rightarrow> rexpr" where
  "sd_term_expr a b = RBin RcPower (RBin RcMinus (RRef a) (RRef b)) (RNum 2)"

definition sd_expr :: "string \<Rightarrow> int \<Rightarrow> string \<Rightarrow> int list \<Rightarrow> rexpr" where
  "sd_expr l_prefix num_years av_layer_name layers =
     RSqrt (RBin RcTimes (RBin RcDivide (RNum 1) (RNum (real (nat num_years))))
       (foldl (\<lambda>a i. RBin RcPlus a (sd_term_expr (l_prefix @ py_str_int i) av_layer_name))
          (sd_term_expr (l_prefix @ py_str_int (hd layers)) av_layer_name) (tl layers)))"

subsection \<open>Lexing the formulas\<close>

lemma py_str_int_plain:
  assumes "rc_plain_name l"
  shows "rc_plain_name (l @ py_str_int i)"
proof -
  have "c \<in> set (py_str_int i) \<Longrightarrow> c \<noteq> CHR 0x22 \<and> c \<noteq> CHR 0x5C" for c
    using nat_digits_isdigit [of c]
    by (auto simp: py_str_int_def py_isdigit_def split: if_splits)
  then show ?thesis using assms by (auto simp: rc_plain_name_def)
qed

lemma py_str_int_pos: "0 < n \<Longrightarrow> py_str_int n = nat_digits (nat n)"
  by (simp add: py_str_int_def)

lemma rc_lex_sd_term:
  assumes "rc_plain_name l" and "rc_plain_name av" and "literal_end rest"
  shows \<open>rc_lex (''("'' @ l @ py_str_int i @ ''" - "'' @ av @ ''")^2'' @ rest) =
           map_option ((@) (sd_term_tokens (l @ py_str_int i) av)) (rc_lex rest)\<close>
  using assms py_str_int_plain [OF assms(1), of i]
  by (simp add: rc_quoted_plain2 rc_quoted_plain parse_nat_digit rc_char_defs sd_term_tokens_def digit_val_def)

lemma rc_lex_sd_formula:
  assumes "rc_plain_name l" and "rc_plain_name av" and "0 < n"
  shows "rc_lex (sd_formula_text l n av (y # ys)) =
           Some ([RcFun ''sqrt'', RcLParen, RcNum 1, RcOp CHR ''/'', RcNum (nat n), RcOp CHR ''*'', RcLParen] @
                 sd_term_tokens (l @ py_str_int y) av @
                 concat (map (\<lambda>i. RcOp CHR ''+'' # sd_term_tokens (l @ py_str_int i) av) ys) @
                 [RcRParen, RcRParen])"
proof -
  let ?f = "\<lambda>i. ''(\"'' @ l @ py_str_int i @ ''\" - \"'' @ av @ ''\")^2''"
  let ?g = "\<lambda>i. sd_term_tokens (l @ py_str_int i) av"
  have j: "rc_lex (py_join '' + '' (map ?f (y # ys)) @ ''))'') =
             map_option ((@) (?g y @ concat (map (\<lambda>x. RcOp CHR ''+'' # ?g x) ys))) (rc_lex ''))'')"
    by (rule rc_lex_join) (use assms rc_lex_sd_term in simp_all)
  have "rc_lex (nat_digits (nat n) @ ''*('' @ py_join '' + '' (map ?f (y # ys)) @ ''))'') =
          map_option (Cons (RcNum (nat n))) (rc_lex (''*('' @ py_join '' + '' (map ?f (y # ys)) @ ''))''))"
    by (rule rc_lex_nat_digits) (simp add: rc_char_defs)
  with j assms(3) show ?thesis
    by (simp add: sd_formula_text_def py_str_int_pos parse_nat_digit rc_char_defs digit_val_def)
qed

subsection \<open>Parsing the formulas\<close>

lemma rc_parse_sd_term:
  assumes "rc_prod_end rest"
  shows "rc_parse_nt NProd (sd_term_tokens a b @ rest) = Some (sd_term_expr a b, rest)"
proof (rule rc_parse_prod_stop [OF assms])
  have two: "rc_parse_nt NPow ([RcNum 2] @ rest) = Some (RNum 2, rest)"
    by (rule rc_parse_pow_stop [OF assms]) (simp add: rc_parse_step)
  show "rc_parse_nt NPow (sd_term_tokens a b @ rest) = Some (sd_term_expr a b, rest)"
    using two by (simp add: sd_term_tokens_def sd_term_expr_def rc_parse_step rc_sum_op_def rc_prod_op_def)
qed

lemma rc_parse_sd_formula:
  assumes "rc_plain_name l" and "rc_plain_name av" and "0 < n"
  shows "rc_parse (sd_formula_text l n av (y # ys)) = Some (sd_expr l n av (y # ys))"
proof -
  have "rc_parse_nt NSum (sd_term_tokens (l @ py_str_int y) av @
          concat (map (\<lambda>i. RcOp CHR ''+'' # sd_term_tokens (l @ py_str_int i) av) ys) @ [RcRParen, RcRParen]) =
        Some (foldl (\<lambda>a i. RBin RcPlus a (sd_term_expr (l @ py_str_int i) av))
                (sd_term_expr (l @ py_str_int y) av) ys, [RcRParen, RcRParen])"
    using rc_parse_sum_chain [of y ys "\<lambda>i. sd_term_tokens (l @ py_str_int i) av"
        "\<lambda>i. sd_term_expr (l @ py_str_int i) av" "[RcRParen]"] rc_parse_sd_term by simp
  then show ?thesis
    using assms
    by (simp add: rc_parse_def rc_lex_sd_formula sd_expr_def rc_parse_step rc_prod_op_def rc_sum_op_def)
qed

subsection \<open>Evaluating the formulas\<close>

lemma band_values_Cons:
  "band_values v l (y # ys) =
     (case v (l @ py_str_int y) of None \<Rightarrow> None | Some x \<Rightarrow> map_option (Cons x) (band_values v l ys))"
  by (simp add: band_values_def split: option.split)

lemma rc_eval_sd_term:
  "rc_eval v (sd_term_expr a b) =
     (case (v a, v b) of (Some x, Some m) \<Rightarrow> Some ((x - m)\<^sup>2) | _ \<Rightarrow> None)"
  by (simp add: sd_term_expr_def split: option.split)

lemma rc_eval_sd_expr:
  assumes "0 < n"
  shows "rc_eval v (sd_expr l n av (y # ys)) =
           (case (band_values v l (y # ys), v av) of
              (Some xs, Some m) \<Rightarrow> Some (sqrt (1 / of_int n * (\<Sum>x\<leftarrow>xs. (x - m)\<^sup>2)))
            | _ \<Rightarrow> None)"
proof (cases "v av")
  case None
  then show ?thesis
    by (simp add: sd_expr_def rc_eval_sum_chain rc_eval_sd_term split: option.split)
next
  case (Some m)
  let ?sq = "\<lambda>x. (x - m)\<^sup>2"
  have t: "rc_eval v (sd_term_expr (l @ py_str_int i) av) = map_option ?sq (v (l @ py_str_int i))" for i
    using Some by (simp add: rc_eval_sd_term split: option.split)
  have nn: "0 \<le> (?sq x + sum_list (map ?sq xs)) / real_of_int n" for x xs
    using assms by (intro divide_nonneg_nonneg add_nonneg_nonneg sum_list_nonneg) auto
  show ?thesis
    using Some assms nn
    by (simp add: sd_expr_def rc_eval_sum_chain t those_map_option band_values_Cons band_values_def
        split: option.split) (metis not_le)
qed

subsection \<open>Properties of the formulas\<close>

text \<open>
  C25. For a layer prefix and an average-layer name that contain no double quote or
  backslash, a positive number of years and at least one layer number, the raster
  calculator accepts the standard-deviation formula of lines 49--50, and at every cell it
  computes \<open>sqrt(1/n * sum (x_i - m)^2)\<close> over the values \<open>x_i\<close> of the referenced
  bands and the value \<open>m\<close> of the average layer; if any of them is no-data, so is the
  result.
\<close>

theorem sd_formula_evaluates:
  assumes "rc_plain_name l_prefix" and "rc_plain_name av_layer_name" and "0 < num_years"
    and "layers \<noteq> []"
  shows "\<exists>e. rc_parse (sd_formula_text l_prefix num_years av_layer_name layers) = Some e \<and>
           rc_eval v e =
             (case (band_values v l_prefix layers, v av_layer_name) of
                (Some xs, Some m) \<Rightarrow> Some (sqrt (1 / of_int num_years * (\<Sum>x\<leftarrow>xs. (x - m)\<^sup>2)))
              | _ \<Rightarrow> None)"
proof -
  obtain y ys where l: "layers = y # ys" using assms(4) by (cases layers) auto
  show ?thesis
    using rc_parse_sd_formula [OF assms(1-3), of y ys] rc_eval_sd_expr [OF assms(3), of v l_prefix av_layer_name y ys]
      assms(3)
    by (simp add: l)
qed

end
