(* ===== verification/LcpSolver.thy ===== *)
theory LcpSolver
  imports GridCatalog
begin

text \<open>
  A least-cost-path solver over a cost raster, the external capability the isolation
  script calls through the \<open>Cost distance analysis:Least Cost Path\<close> plugin (the
  specification's CostPathSolver, sections 4.3 and 6). The plugin is not part of the
  repository; the specification admits any shortest-path-over-weighted-grid
  implementation that meets its contract. This theory models one: the raster is a graph
  whose nodes are the cells with data, adjacent in the eight directions, the cost of a
  step the mean of the two cells' costs times the step length; distances are computed by
  Bellman-Ford relaxation, with as many rounds as there are cells less one. The lemmas
  show that the result is the least cost of any walk and is attained by one, that more
  rounds change nothing, and that the solver meets the contract of section 4.3.
\<close>

subsection \<open>Weighted graphs and walks\<close>

record 'n lcp_graph =
  g_nodes :: "'n list"
  g_weight :: "'n \<Rightarrow> 'n \<Rightarrow> real option"

definition g_edge :: "'n lcp_graph \<Rightarrow> 'n \<Rightarrow> 'n \<Rightarrow> real option" where
  "g_edge g u v = (if u \<in> set (g_nodes g) \<and> v \<in> set (g_nodes g) then g_weight g u v else None)"

text \<open>The cost of a walk, a list of vertices; \<open>None\<close> if a step is not an edge.\<close>

fun walk_cost :: "'n lcp_graph \<Rightarrow> 'n list \<Rightarrow> real option" where
  "walk_cost g [] = None"
| "walk_cost g [v] = Some 0"
| "walk_cost g (u # v # vs) =
     (case (g_edge g u v, walk_cost g (v # vs)) of
        (Some a, Some b) \<Rightarrow> Some (a + b)
      | _ \<Rightarrow> None)"

definition walk_bet :: "'n lcp_graph \<Rightarrow> 'n \<Rightarrow> 'n list \<Rightarrow> 'n \<Rightarrow> bool" where
  "walk_bet g u p v \<longleftrightarrow> p \<noteq> [] \<and> hd p = u \<and> last p = v \<and> walk_cost g p \<noteq> None"

definition nonneg_graph :: "'n lcp_graph \<Rightarrow> bool" where
  "nonneg_graph g \<longleftrightarrow>
     list_all (\<lambda>u. list_all (\<lambda>v. case g_edge g u v of None \<Rightarrow> True | Some w \<Rightarrow> 0 \<le> w) (g_nodes g)) (g_nodes g)"

subsection \<open>Bellman-Ford relaxation\<close>

text \<open>Tentative distances are \<open>real option\<close>, \<open>None\<close> standing for infinity.\<close>

definition min_opt :: "real option \<Rightarrow> real option \<Rightarrow> real option" where
  "min_opt x y = (case x of None \<Rightarrow> y | Some a \<Rightarrow> (case y of None \<Rightarrow> Some a | Some b \<Rightarrow> Some (min a b)))"

definition opt_le :: "real option \<Rightarrow> real option \<Rightarrow> bool" where
  "opt_le x y = (case y of None \<Rightarrow> True | Some b \<Rightarrow> (case x of None \<Rightarrow> False | Some a \<Rightarrow> a \<le> b))"

definition via :: "'n lcp_graph \<Rightarrow> ('n \<Rightarrow> real option) \<Rightarrow> 'n \<Rightarrow> 'n \<Rightarrow> real option" where
  "via g d v u = (case (d u, g_edge g u v) of (Some a, Some b) \<Rightarrow> Some (a + b) | _ \<Rightarrow> None)"

text \<open>One round: every vertex keeps its distance or improves it through an edge.\<close>

definition bf_relax :: "'n lcp_graph \<Rightarrow> ('n \<Rightarrow> real option) \<Rightarrow> 'n \<Rightarrow> real option" where
  "bf_relax g d v = fold (\<lambda>u acc. min_opt acc (via g d v u)) (g_nodes g) (d v)"

definition lcp_init :: "'n \<Rightarrow> 'n \<Rightarrow> real option" where
  "lcp_init s v = (if v = s then Some 0 else None)"

definition lcp_dist :: "'n lcp_graph \<Rightarrow> 'n \<Rightarrow> 'n \<Rightarrow> real option" where
  "lcp_dist g s = (bf_relax g ^^ (length (g_nodes g) - 1)) (lcp_init s)"

subsection \<open>The cost raster as a graph\<close>

type_synonym cell = "nat \<times> nat"

record raster_grid =
  rg_cells :: "real option list list"
  rg_x0 :: real
  rg_y0 :: real
  rg_res :: real

definition raster_cell :: "real option list list \<Rightarrow> cell \<Rightarrow> real option" where
  "raster_cell rs rc = (case rc of (r, c) \<Rightarrow> if r < length rs \<and> c < length (rs ! r) then rs ! r ! c else None)"

definition raster_nodes :: "real option list list \<Rightarrow> cell list" where
  "raster_nodes rs = [(r, c). r \<leftarrow> [0..<length rs], c \<leftarrow> [0..<length (rs ! r)], raster_cell rs (r, c) \<noteq> None]"

text \<open>The length of a diagonal step: the double nearest to \<open>sqrt 2\<close>, as the solver's float arithmetic computes it.\<close>

definition diag_len :: real where
  "diag_len = 6369051672525773 / 4503599627370496"

definition raster_step :: "cell \<Rightarrow> cell \<Rightarrow> real option" where
  "raster_step a b =
     (case (a, b) of ((r, c), (r', c')) \<Rightarrow>
        let dr = \<bar>int r - int r'\<bar>; dc = \<bar>int c - int c'\<bar> in
        if a = b \<or> 1 < dr \<or> 1 < dc then None
        else if dr = 1 \<and> dc = 1 then Some diag_len else Some 1)"

definition raster_weight :: "real option list list \<Rightarrow> cell \<Rightarrow> cell \<Rightarrow> real option" where
  "raster_weight rs a b =
     (case (raster_step a b, raster_cell rs a, raster_cell rs b) of
        (Some l, Some x, Some y) \<Rightarrow> Some ((x + y) / 2 * l)
      | _ \<Rightarrow> None)"

definition raster_graph :: "real option list list \<Rightarrow> cell lcp_graph" where
  "raster_graph rs = \<lparr>g_nodes = raster_nodes rs, g_weight = raster_weight rs\<rparr>"

definition raster_nonneg :: "real option list list \<Rightarrow> bool" where
  "raster_nonneg rs \<longleftrightarrow> list_all (list_all (\<lambda>x. case x of None \<Rightarrow> True | Some a \<Rightarrow> 0 \<le> a)) rs"

text \<open>The cell of a feature's centroid, for a raster whose top-left corner is \<open>(x0, y0)\<close>.\<close>

definition raster_lookup :: "raster_grid \<Rightarrow> feature \<Rightarrow> cell option" where
  "raster_lookup rg f =
     (case ctrd f of (x, y) \<Rightarrow>
        let c = \<lfloor>(x - rg_x0 rg) / rg_res rg\<rfloor>; r = \<lfloor>(rg_y0 rg - y) / rg_res rg\<rfloor> in
        if 0 \<le> r \<and> 0 \<le> c \<and> raster_cell (rg_cells rg) (nat r, nat c) \<noteq> None
        then Some (nat r, nat c) else None)"

subsection \<open>The solver\<close>

datatype lcp_error = StartPointCount nat | RasterLookupFailed int | NoPathFound

text \<open>
  One start point and its end points: a path feature for every reachable end, in the
  order of the ends; unreachable ends are omitted; no reachable end, or a point outside
  the raster's data, is an exception.
\<close>

definition raster_lcp :: "raster_grid \<Rightarrow> lcp_error lcp_solver" where
  "raster_lcp rg starts ends =
     (case starts of
        [st] \<Rightarrow>
          (case raster_lookup rg st of
             None \<Rightarrow> Inl (RasterLookupFailed (fid st))
           | Some s \<Rightarrow>
               (case find (\<lambda>e. raster_lookup rg e = None) ends of
                  Some e \<Rightarrow> Inl (RasterLookupFailed (fid e))
                | None \<Rightarrow>
                    let g = raster_graph (rg_cells rg);
                        out = List.map_filter
                                (\<lambda>e. map_option (\<lambda>c. \<lparr>start_id = fid st, end_id = fid e, total_cost = Some c\<rparr>)
                                        (lcp_dist g s (the (raster_lookup rg e)))) ends
                    in if out = [] then Inl NoPathFound else Inr out))
      | _ \<Rightarrow> Inl (StartPointCount (length starts)))"

subsection \<open>Lemmas on tentative distances\<close>

lemma opt_le_simps [simp]:
  "opt_le x None"
  "opt_le None (Some b) \<longleftrightarrow> False"
  "opt_le (Some a) (Some b) \<longleftrightarrow> a \<le> b"
  by (simp_all add: opt_le_def split: option.split)

lemma opt_le_trans: "opt_le x y \<Longrightarrow> opt_le y z \<Longrightarrow> opt_le x z"
  by (auto simp: opt_le_def split: option.splits)

lemma opt_le_SomeE:
  assumes "opt_le x (Some b)"
  obtains a where "x = Some a" and "a \<le> b"
  using assms by (cases x) auto

lemma min_opt_le: "opt_le (min_opt x y) x" "opt_le (min_opt x y) y"
  by (auto simp: min_opt_def opt_le_def split: option.splits)

lemma min_opt_cases: "min_opt x y = x \<or> min_opt x y = y"
  by (auto simp: min_opt_def min_def split: option.splits)

lemma fold_min_le_init: "opt_le (fold (\<lambda>u acc. min_opt acc (f u)) us a) a"
proof (induction us arbitrary: a)
  case (Cons u us)
  then show ?case using min_opt_le(1) [of a "f u"] by (auto intro: opt_le_trans)
qed (simp add: opt_le_def split: option.split)

lemma fold_min_le_elem:
  "u \<in> set us \<Longrightarrow> opt_le (fold (\<lambda>u acc. min_opt acc (f u)) us a) (f u)"
proof (induction us arbitrary: a)
  case (Cons w us)
  show ?case
  proof (cases "u \<in> set us")
    case True
    then show ?thesis using Cons.IH by simp
  next
    case False
    then have "u = w" using Cons.prems by simp
    then show ?thesis
      using fold_min_le_init [of f us "min_opt a (f w)"] min_opt_le(2) [of a "f w"]
      by (auto intro: opt_le_trans)
  qed
qed simp

lemma fold_min_cases:
  "fold (\<lambda>u acc. min_opt acc (f u)) us a = a \<or> (\<exists>u\<in>set us. fold (\<lambda>u acc. min_opt acc (f u)) us a = f u)"
proof (induction us arbitrary: a)
  case (Cons u us)
  have "fold (\<lambda>u acc. min_opt acc (f u)) (u # us) a = fold (\<lambda>u acc. min_opt acc (f u)) us (min_opt a (f u))"
    by simp
  then show ?case
    using Cons.IH [of "min_opt a (f u)"] min_opt_cases [of a "f u"] by auto
qed simp

lemma relax_le_self: "opt_le (bf_relax g d v) (d v)"
  unfolding bf_relax_def by (rule fold_min_le_init)

lemma relax_le_via: "u \<in> set (g_nodes g) \<Longrightarrow> opt_le (bf_relax g d v) (via g d v u)"
  unfolding bf_relax_def by (rule fold_min_le_elem)

lemma relax_cases: "bf_relax g d v = d v \<or> (\<exists>u\<in>set (g_nodes g). bf_relax g d v = via g d v u)"
  unfolding bf_relax_def by (rule fold_min_cases)

lemma via_Some:
  "via g d v u = Some c \<longleftrightarrow> (\<exists>a b. d u = Some a \<and> g_edge g u v = Some b \<and> c = a + b)"
  by (auto simp: via_def split: option.splits)

subsection \<open>Lemmas on walks\<close>

lemma g_edge_nodes: "g_edge g u v = Some w \<Longrightarrow> u \<in> set (g_nodes g) \<and> v \<in> set (g_nodes g)"
  by (simp add: g_edge_def split: if_splits)

lemma edge_nonneg: "nonneg_graph g \<Longrightarrow> g_edge g u v = Some w \<Longrightarrow> 0 \<le> w"
  using g_edge_nodes [of g u v w] by (fastforce simp: nonneg_graph_def list_all_iff)

lemma walk_cost_snoc:
  "p \<noteq> [] \<Longrightarrow> walk_cost g (p @ [v]) =
     (case (walk_cost g p, g_edge g (last p) v) of (Some a, Some b) \<Rightarrow> Some (a + b) | _ \<Rightarrow> None)"
proof (induction g p rule: walk_cost.induct)
  case (3 g u w vs)
  then show ?case by (auto simp: add.assoc split: option.splits)
qed (auto split: option.splits)

lemma walk_cost_append:
  "walk_cost g (p @ v # q) =
     (case (walk_cost g (p @ [v]), walk_cost g (v # q)) of (Some a, Some b) \<Rightarrow> Some (a + b) | _ \<Rightarrow> None)"
proof (induction p)
  case Nil
  then show ?case by (simp split: option.split)
next
  case (Cons x p)
  then show ?case by (cases p) (auto simp: add.assoc split: option.splits)
qed

lemma walk_cost_nonneg: "nonneg_graph g \<Longrightarrow> walk_cost g p = Some c \<Longrightarrow> 0 \<le> c"
proof (induction g p arbitrary: c rule: walk_cost.induct)
  case (3 g u v vs)
  then show ?case by (force dest: edge_nonneg split: option.splits)
qed auto

lemma walk_cost_nodes: "walk_cost g p = Some c \<Longrightarrow> 2 \<le> length p \<Longrightarrow> set p \<subseteq> set (g_nodes g)"
proof (induction g p arbitrary: c rule: walk_cost.induct)
  case (3 g u v vs)
  then show ?case by (cases vs) (auto dest: g_edge_nodes split: option.splits)
qed auto

subsection \<open>Every tentative distance is the cost of a walk\<close>

lemma relax_sound:
  assumes "\<And>v c. d v = Some c \<Longrightarrow> \<exists>p. walk_bet g s p v \<and> walk_cost g p = Some c"
    and "bf_relax g d v = Some c"
  shows "\<exists>p. walk_bet g s p v \<and> walk_cost g p = Some c"
  using relax_cases [of g d v]
proof (elim disjE bexE)
  assume "bf_relax g d v = d v"
  then have "d v = Some c" using assms(2) by simp
  then show ?thesis by (rule assms(1))
next
  fix u assume "bf_relax g d v = via g d v u"
  then have "via g d v u = Some c" using assms(2) by simp
  then obtain a b where du: "d u = Some a" and e: "g_edge g u v = Some b" and c: "c = a + b"
    by (auto simp: via_Some)
  obtain p where p: "walk_bet g s p u" and pc: "walk_cost g p = Some a"
    using assms(1) [OF du] by blast
  have "walk_bet g s (p @ [v]) v \<and> walk_cost g (p @ [v]) = Some c"
    using p pc e c by (simp add: walk_bet_def walk_cost_snoc)
  then show ?thesis by blast
qed

lemma rounds_sound:
  "(bf_relax g ^^ k) (lcp_init s) v = Some c \<Longrightarrow> \<exists>p. walk_bet g s p v \<and> walk_cost g p = Some c"
proof (induction k arbitrary: v c)
  case 0
  then have "v = s" "c = 0" by (simp_all add: lcp_init_def split: if_splits)
  then show ?case by (intro exI [of _ "[s]"]) (simp add: walk_bet_def)
next
  case (Suc k)
  then show ?case using relax_sound [of "(bf_relax g ^^ k) (lcp_init s)"] by simp
qed

subsection \<open>Every walk bounds the distance\<close>

lemma rounds_complete:
  "walk_bet g s p v \<Longrightarrow> walk_cost g p = Some c \<Longrightarrow> length p \<le> Suc k \<Longrightarrow>
     opt_le ((bf_relax g ^^ k) (lcp_init s) v) (Some c)"
proof (induction k arbitrary: p v c)
  case 0
  then obtain x where "p = [x]" by (cases p) (auto simp: walk_bet_def)
  with 0 show ?case by (auto simp: walk_bet_def lcp_init_def)
next
  case (Suc k)
  let ?d = "(bf_relax g ^^ k) (lcp_init s)"
  show ?case
  proof (cases "length p \<le> Suc k")
    case True
    then show ?thesis
      using Suc.IH [OF Suc.prems(1,2)] relax_le_self [of g ?d v] by (auto intro: opt_le_trans)
  next
    case False
    have pn: "p \<noteq> []" "last p = v" using Suc.prems(1) by (auto simp: walk_bet_def)
    define q where "q = butlast p"
    have p: "p = q @ [v]" using append_butlast_last_id [OF pn(1)] pn(2) by (simp add: q_def)
    have q: "q \<noteq> []" using False p by auto
    obtain a b where qa: "walk_cost g q = Some a" and e: "g_edge g (last q) v = Some b"
      and c: "c = a + b"
      using Suc.prems(2) p q by (auto simp: walk_cost_snoc split: option.splits)
    have "walk_bet g s q (last q)" using Suc.prems(1) p q qa by (simp add: walk_bet_def)
    then have "opt_le (?d (last q)) (Some a)"
      by (rule Suc.IH [OF _ qa]) (use Suc.prems(3) p in simp)
    then obtain a' where a': "?d (last q) = Some a'" "a' \<le> a" by (rule opt_le_SomeE)
    have "opt_le (bf_relax g ?d v) (via g ?d v (last q))"
      using e by (intro relax_le_via) (simp add: g_edge_nodes)
    moreover have "via g ?d v (last q) = Some (a' + b)" using a' e by (simp add: via_Some)
    ultimately show ?thesis using a' c by (auto intro: opt_le_trans)
  qed
qed

subsection \<open>Cycles can be removed from a walk\<close>

lemma walk_shorten:
  assumes "nonneg_graph g" and "walk_bet g s p t" and "walk_cost g p = Some c"
  shows "\<exists>q c'. walk_bet g s q t \<and> distinct q \<and> walk_cost g q = Some c' \<and> c' \<le> c"
  using assms(2,3)
proof (induction "length p" arbitrary: p c rule: less_induct)
  case less
  show ?case
  proof (cases "distinct p")
    case True
    then show ?thesis using less.prems by blast
  next
    case False
    then obtain a y b e where p: "p = a @ [y] @ b @ [y] @ e"
      using not_distinct_decomp by blast
    let ?p' = "a @ y # e"
    obtain x1 x2 where x1: "walk_cost g (a @ [y]) = Some x1" and x2: "walk_cost g (y # b @ y # e) = Some x2"
      and c: "c = x1 + x2"
      using less.prems(2) p walk_cost_append [of g a y "b @ y # e"] by (auto split: option.splits)
    obtain z1 z2 where z1: "walk_cost g (y # b @ [y]) = Some z1" and z2: "walk_cost g (y # e) = Some z2"
      and x2': "x2 = z1 + z2"
      using x2 walk_cost_append [of g "y # b" y e] by (auto split: option.splits)
    have "0 \<le> z1" using walk_cost_nonneg [OF assms(1) z1] .
    moreover have p'c: "walk_cost g ?p' = Some (x1 + z2)"
      using x1 z2 walk_cost_append [of g a y e] by simp
    moreover have "walk_bet g s ?p' t"
      using less.prems(1) p p'c by (cases a; cases e) (auto simp: walk_bet_def)
    moreover have "length ?p' < length p" using p by simp
    ultimately show ?thesis
      using less.hyps [of ?p' "x1 + z2"] c x2' by fastforce
  qed
qed

lemma distinct_walk_length:
  assumes "walk_bet g s q t" and "distinct q"
  shows "length q \<le> Suc (length (g_nodes g) - 1)"
proof (cases "2 \<le> length q")
  case True
  then have "set q \<subseteq> set (g_nodes g)"
    using assms(1) walk_cost_nodes [of g q] by (auto simp: walk_bet_def)
  then have "length q \<le> length (g_nodes g)"
    using assms(2) card_mono [of "set (g_nodes g)" "set q"] card_length [of "g_nodes g"]
    by (simp add: distinct_card)
  then show ?thesis by simp
qed simp

lemma rounds_antimono: "opt_le ((bf_relax g ^^ (n + j)) d v) ((bf_relax g ^^ n) d v)"
proof (induction j arbitrary: v)
  case (Suc j)
  show ?case
    using opt_le_trans [OF relax_le_self [of g "(bf_relax g ^^ (n + j)) d" v] Suc.IH [of v]] by simp
qed (simp add: opt_le_def split: option.split)

text \<open>Enough rounds: every walk bounds the tentative distance.\<close>

lemma rounds_le_walk:
  assumes "nonneg_graph g" and "walk_bet g s p t" and "walk_cost g p = Some c"
    and "length (g_nodes g) - 1 \<le> k"
  shows "opt_le ((bf_relax g ^^ k) (lcp_init s) t) (Some c)"
proof -
  obtain q c' where q: "walk_bet g s q t" "distinct q" "walk_cost g q = Some c'" "c' \<le> c"
    using walk_shorten [OF assms(1-3)] by blast
  have "length q \<le> Suc k" using distinct_walk_length [OF q(1,2)] assms(4) by simp
  then have "opt_le ((bf_relax g ^^ k) (lcp_init s) t) (Some c')"
    using rounds_complete [OF q(1,3)] by blast
  then show ?thesis using q(4) by (auto intro: opt_le_trans)
qed

subsection \<open>The raster graph\<close>

lemma raster_cell_nonneg:
  assumes "raster_nonneg rs" and "raster_cell rs a = Some x"
  shows "0 \<le> x"
proof -
  obtain r c where a: "a = (r, c)" by (cases a)
  with assms(2) have r: "r < length rs" "c < length (rs ! r)" "rs ! r ! c = Some x"
    by (auto simp: raster_cell_def split: if_splits)
  then have "rs ! r \<in> set rs" "Some x \<in> set (rs ! r)" by (metis nth_mem)+
  with assms(1) show ?thesis by (force simp: raster_nonneg_def list_all_iff)
qed

lemma raster_step_nonneg: "raster_step a b = Some l \<Longrightarrow> 0 \<le> l"
  by (auto simp: raster_step_def diag_len_def Let_def split: prod.splits if_splits)

lemma raster_weight_nonneg:
  assumes "raster_nonneg rs" and "raster_weight rs a b = Some w"
  shows "0 \<le> w"
proof -
  obtain l x y where l: "raster_step a b = Some l" and x: "raster_cell rs a = Some x"
    and y: "raster_cell rs b = Some y" and w: "w = (x + y) / 2 * l"
    using assms(2) by (auto simp: raster_weight_def split: option.splits)
  have "0 \<le> l" "0 \<le> x" "0 \<le> y"
    using raster_step_nonneg [OF l] raster_cell_nonneg [OF assms(1) x] raster_cell_nonneg [OF assms(1) y] .
  then show ?thesis by (simp add: w)
qed

lemma raster_nonneg_graph: "raster_nonneg rs \<Longrightarrow> nonneg_graph (raster_graph rs)"
  by (auto simp: nonneg_graph_def list_all_iff g_edge_def raster_graph_def
      dest: raster_weight_nonneg split: option.split)

lemma raster_lcp_Inr:
  assumes "raster_lcp rg starts ends = Inr out"
  obtains st s where "starts = [st]" and "raster_lookup rg st = Some s" and "out \<noteq> []"
    and "out = List.map_filter
                 (\<lambda>e. map_option (\<lambda>c. \<lparr>start_id = fid st, end_id = fid e, total_cost = Some c\<rparr>)
                         (lcp_dist (raster_graph (rg_cells rg)) s (the (raster_lookup rg e)))) ends"
  using assms
  by (auto simp: raster_lcp_def Let_def split: list.splits option.splits if_splits)

lemma raster_lcp_cost_nonneg:
  assumes "raster_nonneg (rg_cells rg)" and "raster_lcp rg starts ends = Inr out"
    and "pf \<in> set out"
  shows "\<exists>st e c. starts = [st] \<and> e \<in> set ends \<and> pf = \<lparr>start_id = fid st, end_id = fid e, total_cost = Some c\<rparr> \<and> 0 \<le> c"
proof -
  obtain st s where st: "starts = [st]"
    and out: "out = List.map_filter
                 (\<lambda>e. map_option (\<lambda>c. \<lparr>start_id = fid st, end_id = fid e, total_cost = Some c\<rparr>)
                         (lcp_dist (raster_graph (rg_cells rg)) s (the (raster_lookup rg e)))) ends"
    using assms(2) by (rule raster_lcp_Inr)
  define D where "D e = lcp_dist (raster_graph (rg_cells rg)) s (the (raster_lookup rg e))" for e
  have nn: "0 \<le> c" if "D e = Some c" for e c
    using rounds_sound [where g = "raster_graph (rg_cells rg)"] that
      walk_cost_nonneg [OF raster_nonneg_graph [OF assms(1)]]
    unfolding lcp_dist_def D_def by blast
  have "out = List.map_filter (\<lambda>e. map_option (\<lambda>c. \<lparr>start_id = fid st, end_id = fid e, total_cost = Some c\<rparr>) (D e)) ends"
    by (simp add: out D_def)
  then show ?thesis using st assms(3) nn by (auto simp: map_filter_def)
qed

text \<open>What the solver's costs average to: the NaN-free costs of its paths are the finite
  distances to the end points, in order.\<close>

lemma raster_lcp_costs:
  "drop_nan (map total_cost (List.map_filter
     (\<lambda>e. map_option (\<lambda>c. \<lparr>start_id = a, end_id = fid e, total_cost = Some c\<rparr>) (D e)) es)) =
   drop_nan (map D es)"
  by (induction es) (auto simp: map_filter_simps split: option.split)

subsection \<open>Properties of the solver\<close>

text \<open>
  C26. Optimality: on a graph with non-negative step costs, the distance the solver
  computes from \<open>s\<close> to \<open>t\<close> exists whenever some walk joins them, and is at most the
  cost of every such walk.
\<close>

theorem lcp_dist_optimal:
  assumes "nonneg_graph g" and "walk_bet g s p t" and "walk_cost g p = Some c"
  shows "\<exists>c'. lcp_dist g s t = Some c' \<and> c' \<le> c"
proof -
  have "opt_le (lcp_dist g s t) (Some c)"
    unfolding lcp_dist_def using rounds_le_walk [OF assms] by simp
  then show ?thesis by (auto elim: opt_le_SomeE)
qed

text \<open>
  C27. The distance is attained: every distance the solver reports is the cost of a walk
  from the start to the end, so together with C26 it is the least cost of a walk.
\<close>

theorem lcp_dist_attained:
  assumes "lcp_dist g s t = Some c"
  shows "\<exists>p. walk_bet g s p t \<and> walk_cost g p = Some c"
  using assms unfolding lcp_dist_def by (rule rounds_sound)

text \<open>
  C28. The number of rounds is enough: with non-negative step costs, relaxing for any
  number of rounds at least the number of vertices less one gives the same distances as
  \<open>lcp_dist\<close>, so the bound chosen is a fixpoint of the relaxation.
\<close>

theorem lcp_rounds_enough:
  assumes "nonneg_graph g" and "length (g_nodes g) - 1 \<le> k"
  shows "(bf_relax g ^^ k) (lcp_init s) = lcp_dist g s"
proof
  fix v
  let ?n = "length (g_nodes g) - 1"
  have mono: "opt_le ((bf_relax g ^^ k) (lcp_init s) v) (lcp_dist g s v)"
    using rounds_antimono [where g = g and n = ?n and j = "k - ?n" and d = "lcp_init s" and v = v] assms(2)
    by (simp add: lcp_dist_def)
  show "(bf_relax g ^^ k) (lcp_init s) v = lcp_dist g s v"
  proof (cases "(bf_relax g ^^ k) (lcp_init s) v")
    case None
    then show ?thesis using mono by (cases "lcp_dist g s v") simp_all
  next
    case (Some c)
    then obtain p where "walk_bet g s p v" "walk_cost g p = Some c" using rounds_sound [OF Some] by blast
    then have "opt_le (lcp_dist g s v) (Some c)"
      unfolding lcp_dist_def by (rule rounds_le_walk [OF assms(1)]) simp
    then show ?thesis using mono Some by (auto elim: opt_le_SomeE)
  qed
qed

text \<open>
  C29. The contract of section 4.3 of the specification: on a raster without negative
  costs, a successful call has one start point, returns at least one path, and every
  path starts at that point, ends at one of the end points, and has a finite,
  non-negative cost.
\<close>

theorem raster_lcp_contract:
  assumes "raster_nonneg (rg_cells rg)" and "raster_lcp rg starts ends = Inr out"
  shows "\<exists>st. starts = [st] \<and> out \<noteq> [] \<and>
           list_all (\<lambda>pf. start_id pf = fid st \<and> end_id pf \<in> fid ` set ends \<and>
                          (\<exists>c. total_cost pf = Some c \<and> 0 \<le> c)) out"
proof -
  obtain st s where st: "starts = [st]" and "out \<noteq> []"
    and out: "out = List.map_filter
                 (\<lambda>e. map_option (\<lambda>c. \<lparr>start_id = fid st, end_id = fid e, total_cost = Some c\<rparr>)
                         (lcp_dist (raster_graph (rg_cells rg)) s (the (raster_lookup rg e)))) ends"
    using assms(2) by (rule raster_lcp_Inr)
  then show ?thesis
    using raster_lcp_cost_nonneg [OF assms] by (fastforce simp: list_all_iff)
qed

end
