(* ===== verification/Spec2Isabelle.thy ===== *)
theory Spec2Isabelle
  imports Isolation VolatilityFormulas LcpSolver
begin

text \<open>
  \<^bold>\<open>A verification development of \<open>src/interyear_climatic_volatility_pyqgis.py\<close>.\<close>

  The repository's only source file holds two PyQGIS scripts run in the QGIS Python
  console. The first (lines 1--93) builds QGIS raster-calculator formulas for the
  interannual mean and standard deviation of one calendar month of a CRU TS file and runs
  them; the second (lines 114--234) computes the Local Isolation Measure: for every point
  of a one-degree land-surface grid, the mean least-cost-path (LCP) cost to the
  neighbouring grid points given by a fixed list of id offsets, written into a pandas
  table exported as CSV. The parts interact only through QGIS: the project's layer
  registry, \<open>processing.run\<close> for point extraction, the LCP plugin and the raster
  calculator.

  \<^bold>\<open>Theories.\<close>
  \<^item> \<open>PyPrelude\<close>: the Python and NumPy primitives the scripts use, modelled once:
    exceptions as the datatype \<open>py_error\<close> and results \<open>py_error + 'a\<close>; floats
    with NaN as \<open>real option\<close> (\<open>float64\<close>, rounding not modelled); \<open>np_mean\<close>
    (pandas' NaN-skipping mean, NaN for no value); \<open>py_range\<close>; \<open>py_index\<close>;
    \<open>py_str_int\<close> (\<open>str\<close> of an int); \<open>py_join\<close> (\<open>str.join\<close>);
    \<open>os_path_join\<close>; with the lemmas on means and ranges the components share.
  \<^item> \<open>GridCatalog\<close>: grid features (\<open>id\<close>, \<open>isocode\<close>, centroid), path features
    of the LCP output, map layers and the project registry (\<open>mapLayersByName\<close>,
    \<open>addMapLayer\<close>); loading the grid layer into the data frame (\<open>load_grid\<close>, lines
    173--176), the NaN column (\<open>init_lcp_column\<close>, lines 182--185) and the row write
    \<open>df_loc_set\<close> (line 224).
  \<^item> \<open>QgsLex\<close>, \<open>QgsExpr\<close>: the fragment \<open>id IN (i1, ..., in)\<close> of the QGIS
    expression language and \<open>native:extractbyexpression\<close>, modelled from QGIS's
    documented behaviour (QGIS is not in the repository), with the round trip between
    what \<open>str\<close> and \<open>join\<close> print and what the parser reads.
  \<^item> \<open>Neighbors\<close>: \<open>bufpoint_id_generator\<close> and \<open>pointexpr_generator\<close> (lines
    158--164) and the neighbour query they implement (\<open>neighbor_points\<close>).
  \<^item> \<open>Isolation\<close>: the loop state (\<open>df_cntry\<close>, \<open>error_point_list\<close>,
    \<open>error_excpt_list\<close>, the project's layers, seconds slept) as the record
    \<open>iso_state\<close>; one iteration of lines 189--232 as \<open>isolation_step\<close>, the loop as
    \<open>isolation_loop\<close>, the script of lines 173--232 as \<open>local_isolation\<close>, the
    export of line 234 as \<open>export_table\<close> and the whole script, with the names the
    file reads but never assigns taken from the console namespace \<open>console_ns\<close>, as
    \<open>isolation_script\<close>. The LCP
    plugin is an injected parameter \<open>solve\<close> of type \<open>'e lcp_solver\<close>; every lemma
    holds for any solver. \<open>loop_spec\<close> is the point-by-point specification.
  \<^item> \<open>CsvFormat\<close>, \<open>CsvExport\<close>: the CSV text \<open>to_csv\<close> writes (Python's
    \<open>csv\<close> writer with \<open>QUOTE_MINIMAL\<close>, modelled from its documentation) and
    pandas' layout of the result table (\<open>to_csv\<close>: index, header, NaN as an empty
    field); the text of a finite float is a parameter \<open>float_repr\<close>. The export is
    the last step of \<open>isolation_script\<close>.
  \<^item> \<open>Volatility\<close>: the module globals (\<open>climate_module_init\<close>), the formula
    generators, \<open>sd_raster_generator\<close> with an injected raster calculator, and line 93.
  \<^item> \<open>RasterCalc\<close>: the part of the QGIS raster calculator's expression language the
    formulas use (integer literals, quoted band references, \<open>+ - * / ^\<close> with bison's
    precedences, unary minus, parentheses, \<open>sqrt\<close>), modelled from QGIS's lexer,
    grammar and cell-wise evaluation: \<open>rc_lex\<close> (a terminating \<open>function\<close>),
    the parser \<open>rc_parse_nt\<close> (a \<open>partial_function (option)\<close>, \<open>None\<close> for a
    syntax error; the properties that the formulas parse are stated as results
    \<open>Some e\<close>), and \<open>rc_eval\<close>, with no-data (\<open>None\<close>) propagating and
    produced by division by zero, the square root of a negative value and an invalid
    power.
  \<^item> \<open>VolatilityFormulas\<close>: what the calculator computes from the strings
    \<open>sd_formula_text\<close> (lines 49--50) builds, at one cell, whose band values are a map \<open>v\<close> from reference names to \<open>real option\<close>.
  \<^item> \<open>LcpSolver\<close>: a least-cost-path solver meeting the specification's
    CostPathSolver contract (sections 4.3 and 6; the plugin itself is not in the
    repository): a cost raster (\<open>raster_grid\<close>, no-data cells excluded) as a graph
    whose cells are joined in eight directions, a step costing the mean of the two
    cells times its length (1, or the double nearest to \<open>sqrt 2\<close> diagonally);
    Bellman-Ford relaxation \<open>bf_relax\<close> for \<open>length (g_nodes g) - 1\<close> rounds
    (\<open>lcp_dist\<close>); the lookup of a centroid's cell and the solver \<open>raster_lcp\<close>,
    which has the type of the isolation loop's injected \<open>solve\<close>. The round count is
    enough because, with non-negative costs, removing a cycle from a walk does not raise
    its cost, and a walk without repeated cells has at most as many cells as the graph.
  \<^item> This theory: the scenario and boundary case of the specification over a concrete
    catalog and solver, a demo cost raster, the composition of \<open>raster_lcp\<close> with
    the isolation loop, and a witness for every property with a hypothesis.

  \<^bold>\<open>What is proved.\<close> The loop always returns when the offset list is non-empty and
  equals the order-independent specification (C1); the table of the algorithm (C2); the
  mean (C3); one row per grid point (C4); the error ledger (C5); the missing
  \<open>NoNeighbors\<close> error (C6); partial-failure isolation (C7); order independence
  (C8); the throttle (C9); that temporary layers accumulate (C10); that an empty offset
  list aborts (C11); that a point's value lies within the bounds of the costs the solver
  returned for it (C12); neighbour resolution and the round trips of the generated
  expressions (C13--C15); the specification's scenario, for every solver that answers as
  the scenario says, and its boundary case (C16, C17); that the volatility script always
  raises (C18--C20) and what its standard-deviation formula reads (C21); the end-to-end
  outcome of the local-isolation script, including the \<open>NameError\<close>s of its
  unassigned globals and the export (C22); that every listed point is handled, with a
  written value or a ledger entry (C23); that the NETCDF path the volatility script
  builds has one unmatched double quote (C24); and that the standard-deviation formula
  string parses and evaluates cell-wise to \<open>sqrt(1/n * sum (x_i - m)^2)\<close>, the
  population standard deviation of the month's values (C25; lines 49--50 are never
  reached, since line 33 makes \<open>av_formula_generator\<close> raise first, C18). The solver
  of \<open>LcpSolver\<close> computes least walk costs: every walk bounds the distance (C26)
  and every distance is the cost of a walk (C27); more rounds change nothing (C28); it
  meets the contract of section 4.3 (C29); and, plugged into the isolation loop, the
  value written for a point is the mean of the least-cost distances from its cell to
  its neighbours' cells (C30).

  \<^bold>\<open>Not modelled.\<close> Reading the shapefile and the raster (the grid file is a list of
  features, assumed to hold the same features as the loaded layer); the LCP plugin's own
  code (the isolation lemmas hold for any injected solver; \<open>LcpSolver\<close> is one
  implementation of its contract, not a transcription of the plugin, whose search order
  and float rounding may differ); the raster calculator inside \<open>sd_raster_generator\<close> (injected: its
  expression language is modelled separately in \<open>RasterCalc\<close>, and its raster I/O
  is not) and its \<open>CELLSIZE\<close>, \<open>CRS\<close>, \<open>EXTENT\<close> parameters; the parts of
  the calculator's language the formulas do not use (other functions, comparisons,
  decimal literals, unquoted references, escapes in references); Python's \<open>repr\<close>
  of a float in the CSV text (a parameter); floating-point rounding (cell values are
  reals); the unused \<open>selec_isos\<close>; the docstring of lines 2--14. No loop of the
  scripts needs fuel: every loop runs over a finite list, so every model is a total
  function and the theorems that the scripts return are unconditional equations. The
  calculator's parser is a
  \<open>partial_function (option)\<close> because its recursion passes through the token list
  it returns; its properties here are that the formula strings parse to a given
  expression.
\<close>

subsection \<open>A concrete catalog and solver\<close>

text \<open>
  The scenario of section 8 of the specification: points 1 to 4 with offsets -1 and +1;
  the solver returns costs 4 and 6 from point 2 to points 1 and 3, cost 3 from point 1
  to point 2, cost 5 otherwise, and raises for point 4 and for an empty end layer.
\<close>

definition demo_grid :: "feature list" where
  "demo_grid = map (\<lambda>i. \<lparr>fid = i, isocode = ''ABC'', ctrd = (real_of_int i, 0)\<rparr>) [1, 2, 3, 4]"

definition demo_cost :: "int \<Rightarrow> int \<Rightarrow> real" where
  "demo_cost s e =
     (if (s, e) = (2, 1) then 4 else if (s, e) = (2, 3) then 6
      else if (s, e) = (1, 2) then 3 else 5)"

definition demo_solver :: "string lcp_solver" where
  "demo_solver starts ends =
     (case starts of
        [s] \<Rightarrow> if fid s = 4 \<or> ends = [] then Inl ''no path''
               else Inr (map (\<lambda>e. \<lparr>start_id = fid s, end_id = fid e,
                                   total_cost = Some (demo_cost (fid s) (fid e))\<rparr>) ends)
      | _ \<Rightarrow> Inl ''no start point'')"

definition demo_project :: qgs_project where
  "demo_project = [(''grid1dg_ctrd_cntry'', PointLayer demo_grid)]"

definition demo_df :: "(int \<times> string) list" where
  "demo_df = map (\<lambda>f. (fid f, isocode f)) demo_grid"

definition demo_state :: "string iso_state" where
  "demo_state = init_state demo_df demo_project"

text \<open>Two variants of the solver: one that returns no path instead of raising for an empty
  end layer, and one with an exception injected for point 2.\<close>

text \<open>
  A cost raster for the demo catalog: one row of cells of side 1 whose top-left corner is
  the origin, so that grid point \<open>i\<close>, at \<open>(i, 0)\<close>, lies in cell \<open>(0, i)\<close>.
\<close>

definition demo_raster :: raster_grid where
  "demo_raster = \<lparr>rg_cells = [[None, Some 1, Some 3, Some 2, Some 5]], rg_x0 = 0, rg_y0 = 0, rg_res = 1\<rparr>"

definition demo_pair_graph :: "cell lcp_graph" where
  "demo_pair_graph = raster_graph [[Some 1, Some 3]]"

definition demo_lenient_solver :: "string lcp_solver" where
  "demo_lenient_solver starts ends = (if ends = [] then Inr [] else demo_solver starts ends)"

definition demo_failing_solver :: "string lcp_solver" where
  "demo_failing_solver starts ends =
     (if starts = start_points demo_grid 2 then Inl ''injected failure'' else demo_solver starts ends)"

definition demo_paths2 :: "path_feature list" where
  "demo_paths2 = [\<lparr>start_id = 2, end_id = 1, total_cost = Some 4\<rparr>,
                  \<lparr>start_id = 2, end_id = 3, total_cost = Some 6\<rparr>]"

text \<open>A console namespace binding the three names the script reads, and a stand-in for
  Python's float \<open>repr\<close>.\<close>

definition demo_ns :: console_ns where
  "demo_ns = \<lparr>ns_bufcoordchng = Some [-1, 1], ns_selec_point_ids = Some [1, 2, 3, 4],
              ns_tab_output_path = Some ''out''\<rparr>"

definition demo_repr :: "real \<Rightarrow> string" where
  "demo_repr x = ''1.5''"

subsection \<open>Facts about the demo catalog\<close>

lemma demo_start_2 [simp]: "start_points demo_grid 2 = [\<lparr>fid = 2, isocode = ''ABC'', ctrd = (2, 0)\<rparr>]"
  by (simp add: start_points_def demo_grid_def)

lemma demo_neighbors_2 [simp]:
  "neighbor_points demo_grid 2 [-1, 1] =
     [\<lparr>fid = 1, isocode = ''ABC'', ctrd = (1, 0)\<rparr>, \<lparr>fid = 3, isocode = ''ABC'', ctrd = (3, 0)\<rparr>]"
  by (simp add: neighbor_points_def demo_grid_def)

lemma demo_load [simp]: "load_grid demo_project = Inr demo_df"
  by (simp add: demo_project_def demo_df_def)

subsection \<open>Properties spanning the components\<close>

text \<open>
  C16. The scenario of section 8 of the specification, for any solver that answers as
  the scenario says: over points 1 to 4 with offsets -1 and +1, if the solver returns
  paths of costs 4 and 6 from point 2 to its ends 1 and 3, a path of cost 3 from point 1
  to its only effective end 2 (point 0 is absent), and raises for point 4 and its only
  effective end 3, then the algorithm writes 3 for point 1 and 5 for point 2, leaves
  point 4 NaN and records point 4 with the solver's exception, and neither point 1 nor
  point 2, as failed. Point 3's answer is left open, as in the specification.
\<close>

theorem spec_scenario:
  assumes "solve [demo_grid ! 1] [demo_grid ! 0, demo_grid ! 2] = Inr out2"
    and "map total_cost out2 = [Some 4, Some 6]"
    and "solve [demo_grid ! 0] [demo_grid ! 1] = Inr out1" and "map total_cost out1 = [Some 3]"
    and "solve [demo_grid ! 3] [demo_grid ! 2] = Inl exc"
  shows "\<exists>st. local_isolation solve demo_project demo_grid [-1, 1] [1, 2, 3, 4] = Inr st \<and>
           avlcpcost (df_cntry st ! 0) = Some 3 \<and> avlcpcost (df_cntry st ! 1) = Some 5 \<and>
           avlcpcost (df_cntry st ! 3) = NaN \<and>
           4 \<in> set (error_point_list st) \<and> exc \<in> set (error_excpt_list st) \<and>
           1 \<notin> set (error_point_list st) \<and> 2 \<notin> set (error_point_list st)"
proof -
  have o1: "lcp_outcome solve demo_grid [-1, 1] 1 = Inr out1"
    using assms(3) by (simp add: lcp_outcome_def start_points_def neighbor_points_def demo_grid_def)
  have o2: "lcp_outcome solve demo_grid [-1, 1] 2 = Inr out2"
    using assms(1) by (simp add: lcp_outcome_def start_points_def neighbor_points_def demo_grid_def)
  have o4: "lcp_outcome solve demo_grid [-1, 1] 4 = Inl exc"
    using assms(5) by (simp add: lcp_outcome_def start_points_def neighbor_points_def demo_grid_def)
  have run: "local_isolation solve demo_project demo_grid [-1, 1] [1, 2, 3, 4] =
               Inr (loop_spec solve demo_grid [-1, 1] (init_state demo_df demo_project) [1, 2, 3, 4])"
    by (simp add: local_isolation_def isolation_loop_eq_spec del: isolation_loop.simps)
  have df: "demo_df = [(1, ''ABC''), (2, ''ABC''), (3, ''ABC''), (4, ''ABC'')]"
    by (simp add: demo_df_def demo_grid_def)
  show ?thesis
    using o1 o2 o4 assms(2,4)
    by (simp add: run loop_spec_def init_state_def init_lcp_column_def df
        isolation_table_def point_value_def ledger_defs np_mean_def)
qed

text \<open>
  C17. Boundary: in a catalog of one point, with offsets that do not contain 0 and a solver
  that raises on an empty end layer (its contract), the point is left NaN and is the one
  entry of the error ledger.
\<close>

theorem single_point_catalog:
  assumes "corr \<noteq> []" and "0 \<notin> set corr" and "\<forall>s. isl (solve s [])"
  shows "\<exists>st. local_isolation solve [(''grid1dg_ctrd_cntry'', PointLayer [f])] [f] corr [fid f] = Inr st
           \<and> map avlcpcost (df_cntry st) = [NaN] \<and> error_point_list st = [fid f]"
proof -
  have "neighbor_points [f] (fid f) corr = []"
    using assms(2) by (auto simp: neighbor_points_def)
  then have "isl (lcp_outcome solve [f] corr (fid f))"
    using assms(3) by (simp add: lcp_outcome_def)
  moreover have "local_isolation solve [(''grid1dg_ctrd_cntry'', PointLayer [f])] [f] corr [fid f]
    = Inr (loop_spec solve [f] corr
             (init_state [(fid f, isocode f)] [(''grid1dg_ctrd_cntry'', PointLayer [f])]) [fid f])"
    using assms(1)
    by (simp add: local_isolation_def isolation_loop_eq_spec del: isolation_loop.simps)
  ultimately show ?thesis
    by (auto simp: loop_spec_def init_state_def isolation_table_def init_lcp_column_def
        failed_points_def point_value_def split: sum.splits)
qed

text \<open>
  C30. The least-cost-path solver of \<open>LcpSolver\<close> composed with the isolation loop:
  after a run of the loop, every row of a listed point whose solver call returned holds
  the mean, over the point's neighbours the solver reaches, of the least-cost distances
  from the point's cell to theirs (unreachable neighbours, whose distance is
  \<open>None\<close>, are skipped as NaN).
\<close>

theorem raster_isolation_value:
  assumes "isolation_loop (raster_lcp rg) grid_file corr st ps = Inr st'" and "p \<in> set ps"
    and "start_points grid_file p = [f]" and "raster_lookup rg f = Some s"
    and "raster_lcp rg [f] (neighbor_points grid_file p corr) = Inr out"
  shows "list_all (\<lambda>r. avlcpcost r =
             np_mean (map (\<lambda>e. lcp_dist (raster_graph (rg_cells rg)) s (the (raster_lookup rg e)))
                        (neighbor_points grid_file p corr)))
           (filter (\<lambda>r. row_id r = p) (df_cntry st'))"
proof -
  have "corr \<noteq> []" using assms(1,2) by (rule isolation_loop_Inr_offsets)
  then have st': "st' = loop_spec (raster_lcp rg) grid_file corr st ps"
    using isolation_loop_eq_spec [where solve = "raster_lcp rg" and grid_file = grid_file and st = st and ps = ps]
      assms(1)
    by simp
  obtain st1 s1 where "[f] = [st1]" and "raster_lookup rg st1 = Some s1"
    and out: "out = List.map_filter
                 (\<lambda>e. map_option (\<lambda>c. \<lparr>start_id = fid st1, end_id = fid e, total_cost = Some c\<rparr>)
                         (lcp_dist (raster_graph (rg_cells rg)) s1 (the (raster_lookup rg e))))
                 (neighbor_points grid_file p corr)"
    using assms(5) by (rule raster_lcp_Inr)
  then have "np_mean (map total_cost out) =
               np_mean (map (\<lambda>e. lcp_dist (raster_graph (rg_cells rg)) s (the (raster_lookup rg e)))
                          (neighbor_points grid_file p corr))"
    using assms(4) by (simp add: np_mean_def raster_lcp_costs)
  moreover have "point_value (raster_lcp rg) grid_file corr p = Inr (np_mean (map total_cost out))"
    using assms(3,5) by (simp add: point_value_def lcp_outcome_def)
  ultimately show ?thesis
    using isolation_table_row [of "raster_lcp rg" grid_file corr p _ ps "df_cntry st"] assms(2)
    by (simp add: st' loop_spec_def)
qed

subsection \<open>Witnesses\<close>

text \<open>Each property with a hypothesis, applied where its hypotheses hold.\<close>

theorem isolation_loop_refines_witness:
  "[-1, 1::int] \<noteq> [] \<and>
   isolation_loop demo_solver demo_grid [-1, 1] demo_state [1, 2]
     = Inr (loop_spec demo_solver demo_grid [-1, 1] demo_state [1, 2])"
  by (intro conjI, simp, rule Isolation.isolation_loop_refines, simp)

theorem local_isolation_table_witness:
  "[-1, 1::int] \<noteq> [] \<and> load_grid demo_project = Inr demo_df \<and>
   (\<exists>st. local_isolation demo_solver demo_project demo_grid [-1, 1] [1, 2] = Inr st \<and>
      df_cntry st = map (\<lambda>(i, c). \<lparr>row_id = i, row_isocode = c,
        avlcpcost = (if i \<in> set [1, 2] then
                       (case point_value demo_solver demo_grid [-1, 1] i of Inl _ \<Rightarrow> NaN | Inr v \<Rightarrow> v)
                     else NaN)\<rparr>) demo_df)"
  by (intro conjI, simp, simp, rule Isolation.local_isolation_table, simp, simp)

theorem isolation_step_mean_witness:
  "[-1, 1::int] \<noteq> [] \<and>
   demo_solver (start_points demo_grid 2) (neighbor_points demo_grid 2 [-1, 1]) = Inr demo_paths2 \<and>
   map total_cost demo_paths2 = map Some [4, 6] \<and> [4, 6::real] \<noteq> [] \<and>
   (\<exists>st'. isolation_step demo_solver demo_grid [-1, 1] demo_state 2 = Inr st' \<and>
      df_cntry st' = df_loc_set (df_cntry demo_state) 2 (Some (sum_list [4, 6] / real (length [4, 6::real]))))"
  by (intro conjI, simp, simp add: demo_solver_def demo_cost_def demo_paths2_def,
      simp add: demo_paths2_def, simp,
      rule Isolation.isolation_step_mean,
      simp, simp add: demo_solver_def demo_cost_def demo_paths2_def, simp add: demo_paths2_def, simp)

theorem isolation_keeps_rows_witness:
  "load_grid demo_project = Inr demo_df \<and>
   local_isolation demo_solver demo_project demo_grid [-1, 1] [1, 2, 3, 4]
     = Inr (loop_spec demo_solver demo_grid [-1, 1] demo_state [1, 2, 3, 4]) \<and>
   df_keys (df_cntry (loop_spec demo_solver demo_grid [-1, 1] demo_state [1, 2, 3, 4])) = demo_df"
proof -
  have h1: "load_grid demo_project = Inr demo_df" by simp
  have h2: "local_isolation demo_solver demo_project demo_grid [-1, 1] [1, 2, 3, 4]
     = Inr (loop_spec demo_solver demo_grid [-1, 1] demo_state [1, 2, 3, 4])"
    by (simp add: local_isolation_def demo_state_def isolation_loop_eq_spec del: isolation_loop.simps)
  show ?thesis using h1 h2 Isolation.isolation_keeps_rows [OF h1 h2] by simp
qed

theorem error_ledger_solver_failures_witness:
  "[-1, 1::int] \<noteq> [] \<and>
   (\<exists>st'. isolation_loop demo_solver demo_grid [-1, 1] demo_state [2, 4] = Inr st' \<and>
      error_point_list st' = error_point_list demo_state @
        filter (\<lambda>p. isl (demo_solver (start_points demo_grid p) (neighbor_points demo_grid p [-1, 1]))) [2, 4] \<and>
      error_excpt_list st' = error_excpt_list demo_state @
        concat (map (\<lambda>p. case demo_solver (start_points demo_grid p) (neighbor_points demo_grid p [-1, 1]) of
                           Inl exc \<Rightarrow> [exc] | Inr _ \<Rightarrow> []) [2, 4]))"
  by (intro conjI, simp, rule Isolation.error_ledger_solver_failures, simp)

theorem no_neighbors_not_recorded_witness:
  "[-1, 1::int] \<noteq> [] \<and> neighbor_points demo_grid 10 [-1, 1] = [] \<and>
   demo_lenient_solver (start_points demo_grid 10) [] = Inr [] \<and>
   (\<exists>st'. isolation_step demo_lenient_solver demo_grid [-1, 1] demo_state 10 = Inr st' \<and>
      error_point_list st' = error_point_list demo_state \<and>
      error_excpt_list st' = error_excpt_list demo_state \<and>
      df_cntry st' = df_loc_set (df_cntry demo_state) 10 NaN)"
  by (intro conjI, simp, simp add: neighbor_points_def demo_grid_def,
      simp add: demo_lenient_solver_def,
      rule Isolation.no_neighbors_not_recorded,
      simp, simp add: neighbor_points_def demo_grid_def, simp add: demo_lenient_solver_def)

theorem partial_failure_isolation_witness:
  "[-1, 1::int] \<noteq> [] \<and> 2 \<in> fid ` set demo_grid \<and>
   (\<exists>st1 st2. isolation_loop demo_solver demo_grid [-1, 1] demo_state [1, 2, 3] = Inr st1 \<and>
      isolation_loop demo_failing_solver demo_grid [-1, 1] demo_state [1, 2, 3] = Inr st2 \<and>
      filter (\<lambda>r. row_id r \<noteq> 2) (df_cntry st1) = filter (\<lambda>r. row_id r \<noteq> 2) (df_cntry st2))"
  by (intro conjI, simp, simp add: demo_grid_def,
      rule Isolation.partial_failure_isolation,
      simp, simp add: demo_grid_def, simp add: demo_failing_solver_def)

theorem table_order_independent_witness:
  "[-1, 1::int] \<noteq> [] \<and> set [1, 2, 3::int] = set [3, 2, 1, 2] \<and>
   (\<exists>st1 st2. isolation_loop demo_solver demo_grid [-1, 1] demo_state [1, 2, 3] = Inr st1 \<and>
      isolation_loop demo_solver demo_grid [-1, 1] demo_state [3, 2, 1, 2] = Inr st2 \<and>
      df_cntry st1 = df_cntry st2)"
  by (intro conjI, simp, simp add: insert_commute, rule Isolation.table_order_independent,
      simp, simp add: insert_commute)

theorem throttle_after_success_witness:
  "[-1, 1::int] \<noteq> [] \<and>
   (\<exists>st'. isolation_loop demo_solver demo_grid [-1, 1] demo_state [2, 4] = Inr st' \<and>
      slept st' = slept demo_state + 2 * length
        (filter (\<lambda>p. \<not> isl (demo_solver (start_points demo_grid p) (neighbor_points demo_grid p [-1, 1]))) [2, 4]))"
  by (intro conjI, simp, rule Isolation.throttle_after_success, simp)

theorem layers_never_released_witness:
  "[-1, 1::int] \<noteq> [] \<and>
   (\<exists>st'. isolation_loop demo_solver demo_grid [-1, 1] demo_state [2, 4] = Inr st' \<and>
      take (length (project demo_state)) (project st') = project demo_state \<and>
      length (project st') = length (project demo_state) + 2 * length [2, 4::int]
        + length (resolved_points demo_solver demo_grid [-1, 1] [2, 4]))"
  by (intro conjI, simp, rule Isolation.layers_never_released, simp)


theorem neighbor_resolution_witness:
  "[-1, 1::int] \<noteq> [] \<and>
   extractbyexpression demo_grid (expr_extrbyattr (bufpoint_id_generator 1 [-1, 1]))
     = Inr (filter (\<lambda>f. fid f - 1 \<in> set [-1, 1]) demo_grid)"
  by (intro conjI, simp, rule Neighbors.neighbor_resolution, simp)

theorem bufpoint_expr_roundtrip_witness:
  "[-1, 1::int] \<noteq> [] \<and>
   parse_in_expr (expr_extrbyattr (bufpoint_id_generator 0 [-1, 1]))
     = Some (buf_id_list (bufpoint_id_generator 0 [-1, 1]))"
  by (intro conjI, simp, rule Neighbors.bufpoint_expr_roundtrip, simp)

theorem single_point_catalog_witness:
  "[-1, 1::int] \<noteq> [] \<and> (0::int) \<notin> set [-1, 1] \<and> (\<forall>s. isl (demo_solver s [])) \<and>
   (\<exists>st. local_isolation demo_solver [(''grid1dg_ctrd_cntry'', PointLayer [\<lparr>fid = 7, isocode = ''ABC'', ctrd = (0, 0)\<rparr>])]
            [\<lparr>fid = 7, isocode = ''ABC'', ctrd = (0, 0)\<rparr>] [-1, 1] [7] = Inr st
       \<and> map avlcpcost (df_cntry st) = [NaN] \<and> error_point_list st = [7])"
proof -
  have h3: "\<forall>s. isl (demo_solver s [])"
    by (simp add: demo_solver_def split: list.split)
  show ?thesis
    using h3 single_point_catalog [of "[-1, 1]" demo_solver "\<lparr>fid = 7, isocode = ''ABC'', ctrd = (0, 0)\<rparr>"]
    by simp
qed

theorem sd_layers_select_month_witness:
  "1 \<le> (5::int) \<and> (5::int) \<le> 12 \<and> 0 \<le> (10::int) \<and>
   (\<exists>layers. layer_number_list 5 10 = Inr layers \<and>
      map cru_month layers = replicate (nat 10) 5 \<and>
      map cru_year layers = map int [0..<nat 10])"
  by (intro conjI, simp, simp, simp, rule Volatility.sd_layers_select_month, simp_all)

theorem every_point_handled_witness:
  "[-1, 1::int] \<noteq> [] \<and> (2::int) \<in> set [1, 2] \<and>
   (\<exists>st'. isolation_loop demo_solver demo_grid [-1, 1] demo_state [1, 2] = Inr st' \<and>
      (case point_value demo_solver demo_grid [-1, 1] 2 of
         Inl exc \<Rightarrow> 2 \<in> set (error_point_list st') \<and> exc \<in> set (error_excpt_list st')
       | Inr v \<Rightarrow> list_all (\<lambda>r. avlcpcost r = v) (filter (\<lambda>r. row_id r = 2) (df_cntry st'))))"
  by (intro conjI, simp, simp, rule Isolation.every_point_handled, simp, simp)

theorem netcdf_path_unbalanced_quote_witness:
  "(\<lambda>k. if k = ''nc_layer_name'' then Some ''cru'' else None) ''nc_layer_name'' = Some ''cru'' \<and>
   CHR 0x22 \<notin> set ''cru'' \<and>
   (\<exists>g. climate_module_init (\<lambda>k. if k = ''nc_layer_name'' then Some ''cru'' else None) = Inr g \<and>
      count_list (g_nc_layer_input_pathname g) (CHR 0x22) = 1)"
  by (intro conjI, simp, simp, rule Volatility.netcdf_path_unbalanced_quote, simp, simp)

theorem sd_formula_evaluates_witness:
  "rc_plain_name ''t'' \<and> rc_plain_name ''a'' \<and> 0 < (2::int) \<and> [5, 17::int] \<noteq> [] \<and>
   (\<exists>e. rc_parse (sd_formula_text ''t'' 2 ''a'' [5, 17]) = Some e \<and>
      rc_eval (\<lambda>r. Some 3) e =
        (case (band_values (\<lambda>r. Some 3) ''t'' [5, 17], (\<lambda>r. Some (3::real)) ''a'') of
           (Some xs, Some m) \<Rightarrow> Some (sqrt (1 / of_int 2 * (\<Sum>x\<leftarrow>xs. (x - m)\<^sup>2)))
         | _ \<Rightarrow> None))"
  by (intro conjI, simp add: rc_plain_name_def, simp add: rc_plain_name_def, simp, simp,
      rule VolatilityFormulas.sd_formula_evaluates, simp_all add: rc_plain_name_def)

theorem lcp_dist_optimal_witness:
  "nonneg_graph (raster_graph (rg_cells demo_raster)) \<and>
   walk_bet (raster_graph (rg_cells demo_raster)) (0, 1) [(0, 1), (0, 2), (0, 3)] (0, 3) \<and>
   walk_cost (raster_graph (rg_cells demo_raster)) [(0, 1), (0, 2), (0, 3)] = Some (9 / 2) \<and>
   (\<exists>c'. lcp_dist (raster_graph (rg_cells demo_raster)) (0, 1) (0, 3) = Some c' \<and> c' \<le> 9 / 2)"
proof -
  have h1: "nonneg_graph (raster_graph (rg_cells demo_raster))"
    by (rule raster_nonneg_graph) (simp add: demo_raster_def raster_nonneg_def)
  have h2: "walk_bet (raster_graph (rg_cells demo_raster)) (0, 1) [(0, 1), (0, 2), (0, 3)] (0, 3)"
    and h3: "walk_cost (raster_graph (rg_cells demo_raster)) [(0, 1), (0, 2), (0, 3)] = Some (9 / 2)"
    by code_simp+
  show ?thesis using h1 h2 h3 LcpSolver.lcp_dist_optimal [OF h1 h2 h3] by blast
qed

theorem lcp_dist_attained_witness:
  "lcp_dist demo_pair_graph (0, 0) (0, 1) = Some 2 \<and>
   (\<exists>p. walk_bet demo_pair_graph (0, 0) p (0, 1) \<and> walk_cost demo_pair_graph p = Some 2)"
proof -
  have h: "lcp_dist demo_pair_graph (0, 0) (0, 1) = Some 2" by code_simp
  show ?thesis using h LcpSolver.lcp_dist_attained [OF h] by blast
qed

theorem lcp_rounds_enough_witness:
  "nonneg_graph demo_pair_graph \<and> length (g_nodes demo_pair_graph) - 1 \<le> 4 \<and>
   (bf_relax demo_pair_graph ^^ 4) (lcp_init (0, 0)) = lcp_dist demo_pair_graph (0, 0)"
proof -
  have h1: "nonneg_graph demo_pair_graph"
    unfolding demo_pair_graph_def by (rule raster_nonneg_graph) (simp add: raster_nonneg_def)
  have h2: "length (g_nodes demo_pair_graph) - 1 \<le> 4" by code_simp
  show ?thesis using h1 h2 LcpSolver.lcp_rounds_enough [OF h1 h2] by blast
qed

theorem raster_lcp_contract_witness:
  "raster_nonneg (rg_cells demo_raster) \<and>
   raster_lcp demo_raster [demo_grid ! 0] [demo_grid ! 1, demo_grid ! 3] =
     Inr [\<lparr>start_id = 1, end_id = 2, total_cost = Some 2\<rparr>, \<lparr>start_id = 1, end_id = 4, total_cost = Some 8\<rparr>] \<and>
   (\<exists>st. [demo_grid ! 0] = [st] \<and>
      [\<lparr>start_id = 1, end_id = 2, total_cost = Some 2\<rparr>, \<lparr>start_id = 1, end_id = 4, total_cost = Some 8\<rparr>] \<noteq> [] \<and>
      list_all (\<lambda>pf. start_id pf = fid st \<and> end_id pf \<in> fid ` set [demo_grid ! 1, demo_grid ! 3] \<and>
                     (\<exists>c. total_cost pf = Some c \<and> 0 \<le> c))
        [\<lparr>start_id = 1, end_id = 2, total_cost = Some 2\<rparr>, \<lparr>start_id = 1, end_id = 4, total_cost = Some 8\<rparr>])"
proof -
  have h1: "raster_nonneg (rg_cells demo_raster)" by (simp add: demo_raster_def raster_nonneg_def)
  have h2: "raster_lcp demo_raster [demo_grid ! 0] [demo_grid ! 1, demo_grid ! 3] =
     Inr [\<lparr>start_id = 1, end_id = 2, total_cost = Some 2\<rparr>, \<lparr>start_id = 1, end_id = 4, total_cost = Some 8\<rparr>]"
    by code_simp
  show ?thesis using h1 h2 LcpSolver.raster_lcp_contract [OF h1 h2] by blast
qed

theorem spec_scenario_witness:
  "demo_solver [demo_grid ! 1] [demo_grid ! 0, demo_grid ! 2] = Inr demo_paths2 \<and>
   map total_cost demo_paths2 = [Some 4, Some 6] \<and>
   demo_solver [demo_grid ! 0] [demo_grid ! 1] = Inr [\<lparr>start_id = 1, end_id = 2, total_cost = Some 3\<rparr>] \<and>
   map total_cost [\<lparr>start_id = 1, end_id = 2, total_cost = Some 3\<rparr>] = [Some 3] \<and>
   demo_solver [demo_grid ! 3] [demo_grid ! 2] = Inl ''no path'' \<and>
   (\<exists>st. local_isolation demo_solver demo_project demo_grid [-1, 1] [1, 2, 3, 4] = Inr st \<and>
      avlcpcost (df_cntry st ! 0) = Some 3 \<and> avlcpcost (df_cntry st ! 1) = Some 5 \<and>
      avlcpcost (df_cntry st ! 3) = NaN \<and>
      4 \<in> set (error_point_list st) \<and> ''no path'' \<in> set (error_excpt_list st) \<and>
      1 \<notin> set (error_point_list st) \<and> 2 \<notin> set (error_point_list st))"
proof -
  have h1: "demo_solver [demo_grid ! 1] [demo_grid ! 0, demo_grid ! 2] = Inr demo_paths2"
    and h2: "map total_cost demo_paths2 = [Some 4, Some 6]"
    and h3: "demo_solver [demo_grid ! 0] [demo_grid ! 1] = Inr [\<lparr>start_id = 1, end_id = 2, total_cost = Some 3\<rparr>]"
    and h4: "map total_cost [\<lparr>start_id = 1, end_id = 2, total_cost = Some 3\<rparr>] = [Some 3]"
    and h5: "demo_solver [demo_grid ! 3] [demo_grid ! 2] = Inl ''no path''"
    by (simp_all add: demo_solver_def demo_grid_def demo_cost_def demo_paths2_def)
  show ?thesis using h1 h2 h3 h4 h5 spec_scenario [OF h1 h2 h3 h4 h5] by blast
qed

theorem raster_isolation_value_witness:
  "isolation_loop (raster_lcp demo_raster) demo_grid [-1, 1] (init_state demo_df demo_project) [1, 2, 3, 4] =
     Inr (loop_spec (raster_lcp demo_raster) demo_grid [-1, 1] (init_state demo_df demo_project) [1, 2, 3, 4]) \<and>
   (2::int) \<in> set [1, 2, 3, 4] \<and>
   start_points demo_grid 2 = [demo_grid ! 1] \<and>
   raster_lookup demo_raster (demo_grid ! 1) = Some (0, 2) \<and>
   raster_lcp demo_raster [demo_grid ! 1] (neighbor_points demo_grid 2 [-1, 1]) =
     Inr [\<lparr>start_id = 2, end_id = 1, total_cost = Some 2\<rparr>, \<lparr>start_id = 2, end_id = 3, total_cost = Some (5 / 2)\<rparr>] \<and>
   list_all (\<lambda>r. avlcpcost r =
       np_mean (map (\<lambda>e. lcp_dist (raster_graph (rg_cells demo_raster)) (0, 2) (the (raster_lookup demo_raster e)))
                  (neighbor_points demo_grid 2 [-1, 1])))
     (filter (\<lambda>r. row_id r = 2)
        (df_cntry (loop_spec (raster_lcp demo_raster) demo_grid [-1, 1] (init_state demo_df demo_project) [1, 2, 3, 4])))"
proof -
  have h1: "isolation_loop (raster_lcp demo_raster) demo_grid [-1, 1] (init_state demo_df demo_project) [1, 2, 3, 4] =
     Inr (loop_spec (raster_lcp demo_raster) demo_grid [-1, 1] (init_state demo_df demo_project) [1, 2, 3, 4])"
    by (rule isolation_loop_eq_spec) simp
  have h2: "(2::int) \<in> set [1, 2, 3, 4]" by simp
  have h3: "start_points demo_grid 2 = [demo_grid ! 1]" by (simp add: start_points_def demo_grid_def)
  have h4: "raster_lookup demo_raster (demo_grid ! 1) = Some (0, 2)" by code_simp
  have h5: "raster_lcp demo_raster [demo_grid ! 1] (neighbor_points demo_grid 2 [-1, 1]) =
     Inr [\<lparr>start_id = 2, end_id = 1, total_cost = Some 2\<rparr>, \<lparr>start_id = 2, end_id = 3, total_cost = Some (5 / 2)\<rparr>]"
    by code_simp
  show ?thesis using h1 h2 h3 h4 h5 raster_isolation_value [OF h1 h2 h3 h4 h5] by blast
qed

end
